theory Spec2Isabelle
  imports Main "HOL-Library.Multiset"
begin

section \<open>Feed the Kraken: the game session (GameState.ts)\<close>

text \<open>
  A shallow embedding of the rules engine in \<^verbatim>\<open>src/game/GameState.ts\<close> and
  \<^verbatim>\<open>src/game/TurnManager.ts\<close>. JavaScript numbers that only ever hold small integers
  (gun counts, coordinates, indices, the turn counter) are \<^typ>\<open>int\<close>. Methods that
  mutate \<^verbatim>\<open>this\<close> take the state and return the new one; a method that can throw
  returns \<open>error + state\<close>, with \<open>Inl\<close> for the exception.
\<close>

datatype GameStatus = WAITING | IN_PROGRESS | COMPLETED

datatype GamePhase =
  LOBBY | NIGHT | NAVIGATION_SELECTION | MUTINY | NAVIGATION | VOTING | FEED_KRAKEN

datatype PlayerRole = SAILOR | PIRATE | CULT_LEADER | CULTIST

text \<open>\<^verbatim>\<open>WinnerType\<close> is \<open>'SAILORS' | 'PIRATES' | 'CULT' | null\<close>: an option.\<close>

datatype Winner = SAILORS | PIRATES | CULT

text \<open>The exception a property read on \<^verbatim>\<open>undefined\<close> raises, and the one \<^verbatim>\<open>start\<close> throws.\<close>

datatype error = TypeError | CannotStart

record Player =
  userId :: string
  username :: string
  role :: "PlayerRole option"
  isAlive :: bool
  guns :: int
  characterCard :: "string option"
  characterUsed :: bool

record WinCondition =
  winner :: "Winner option"
  reason :: "string option"

text \<open>\<^verbatim>\<open>Position\<close> has the fields \<^verbatim>\<open>x\<close> and \<^verbatim>\<open>y\<close>; they are named \<open>xpos\<close> and
  \<open>ypos\<close> here so that \<open>x\<close> and \<open>y\<close> stay free for variables.\<close>

record Position =
  xpos :: int
  ypos :: int

text \<open>
  \<^verbatim>\<open>players\<close> is a \<^verbatim>\<open>Map<string, Player>\<close>: it iterates in insertion (join) order
  and every entry is stored under its own \<^verbatim>\<open>userId\<close>, so it is the list of its values
  in join order. \<^verbatim>\<open>createdAt\<close> (a wall-clock stamp nothing reads) is left out.
\<close>

record GameState =
  channelId :: string
  hostId :: string
  players :: "Player list"
  status :: GameStatus
  currentTurn :: int
  currentPhase :: GamePhase
  captain :: "string option"
  lieutenant :: "string option"
  navigator :: "string option"
  shipPosition :: Position
  cultLeader :: "string option"

definition newGameState :: "string \<Rightarrow> string \<Rightarrow> GameState" where
  "newGameState cid hid =
     \<lparr>channelId = cid, hostId = hid, players = [], status = WAITING, currentTurn = 0,
      currentPhase = LOBBY, captain = None, lieutenant = None, navigator = None,
      shipPosition = \<lparr>xpos = 0, ypos = 0\<rparr>, cultLeader = None\<rparr>"

definition getPlayer :: "GameState \<Rightarrow> string \<Rightarrow> Player option" where
  "getPlayer g u = find (\<lambda>p. userId p = u) (players g)"

definition getAllPlayers :: "GameState \<Rightarrow> Player list" where
  "getAllPlayers g = players g"

definition getAlivePlayers :: "GameState \<Rightarrow> Player list" where
  "getAlivePlayers g = filter (\<lambda>p. isAlive p) (getAllPlayers g)"

definition getPlayerCount :: "GameState \<Rightarrow> nat" where
  "getPlayerCount g = length (players g)"

text \<open>\<^verbatim>\<open>addPlayer\<close> returns \<open>{success, message}\<close>; the model returns the success flag
  beside the new state.\<close>

definition addPlayer :: "string \<Rightarrow> string \<Rightarrow> GameState \<Rightarrow> bool \<times> GameState" where
  "addPlayer u n g =
     (if getPlayer g u \<noteq> None then (False, g)
      else if status g \<noteq> WAITING then (False, g)
      else (True, g\<lparr>players := players g @
              [\<lparr>userId = u, username = n, role = None, isAlive = True, guns = 3,
                characterCard = None, characterUsed = False\<rparr>]\<rparr>))"

definition canStart :: "GameState \<Rightarrow> bool" where
  "canStart g = (length (players g) \<ge> 5 \<and> status g = WAITING)"

text \<open>\<^verbatim>\<open>Array.prototype.findIndex\<close> and \<^verbatim>\<open>indexOf\<close>: the first index, or \<open>-1\<close>.\<close>

fun findIndex :: "('a \<Rightarrow> bool) \<Rightarrow> 'a list \<Rightarrow> int" where
  "findIndex P [] = -1"
| "findIndex P (a # as) =
     (if P a then 0 else (let r = findIndex P as in if r = -1 then -1 else r + 1))"

definition indexOf :: "'a list \<Rightarrow> 'a \<Rightarrow> int" where
  "indexOf as v = findIndex (\<lambda>a. a = v) as"

text \<open>
  \<^verbatim>\<open>rotateCaptain\<close>. With no living player \<open>(currentIndex + 1) % 0\<close> is \<open>NaN\<close>,
  \<open>alivePlayers[NaN]\<close> is \<open>undefined\<close> and reading \<open>.userId\<close> of it throws a TypeError.
  Otherwise \<open>currentIndex + 1 \<ge> 0\<close>, where JavaScript's \<open>%\<close> and \<open>mod\<close> agree.
\<close>

definition rotateCaptain :: "GameState \<Rightarrow> error + GameState" where
  "rotateCaptain g =
     (let alivePlayers = getAlivePlayers g;
          currentIndex = findIndex (\<lambda>p. Some (userId p) = captain g) alivePlayers
      in if alivePlayers = [] then Inl TypeError
         else (let nextIndex = (currentIndex + 1) mod int (length alivePlayers)
               in Inr (g\<lparr>captain := Some (userId (alivePlayers ! nat nextIndex))\<rparr>)))"

definition setNavigationTeam :: "string \<Rightarrow> string \<Rightarrow> GameState \<Rightarrow> GameState" where
  "setNavigationTeam lieutenantId navigatorId g =
     g\<lparr>lieutenant := Some lieutenantId, navigator := Some navigatorId\<rparr>"

text \<open>A write through the object \<^verbatim>\<open>getPlayer\<close> returned: the first entry with that id.\<close>

fun updatePlayer :: "string \<Rightarrow> (Player \<Rightarrow> Player) \<Rightarrow> Player list \<Rightarrow> Player list" where
  "updatePlayer u f [] = []"
| "updatePlayer u f (p # ps) =
     (if userId p = u then f p # ps else p # updatePlayer u f ps)"

text \<open>\<^verbatim>\<open>eliminatePlayer\<close>: the liveness flag is cleared first, then the captain is
  rotated if the target held the captaincy. When the rotation throws, the exception
  leaves the method with the flag already cleared.\<close>

definition eliminatePlayer :: "string \<Rightarrow> GameState \<Rightarrow> error + GameState" where
  "eliminatePlayer u g =
     (case getPlayer g u of
        None \<Rightarrow> Inr g
      | Some player \<Rightarrow>
          (let g1 = g\<lparr>players := updatePlayer u (\<lambda>p. p\<lparr>isAlive := False\<rparr>) (players g)\<rparr>
           in if captain g1 = Some u then rotateCaptain g1 else Inr g1))"

text \<open>\<^verbatim>\<open>checkWinCondition\<close> in state-passing style, like every other method: it returns
  its result beside the session it leaves behind.\<close>

definition checkWinCondition :: "GameState \<Rightarrow> WinCondition \<times> GameState" where
  "checkWinCondition g =
     (if xpos (shipPosition g) \<ge> 10 \<and> ypos (shipPosition g) \<ge> 5
      then (\<lparr>winner = Some SAILORS, reason = Some ''The ship reached Bluewater Bay!''\<rparr>, g)
      else if xpos (shipPosition g) \<ge> 10 \<and> ypos (shipPosition g) \<le> -5
      then (\<lparr>winner = Some PIRATES, reason = Some ''The ship reached Crimson Cove!''\<rparr>, g)
      else if ypos (shipPosition g) \<ge> 10
      then (\<lparr>winner = Some CULT, reason = Some ''The ship was fed to the Kraken!''\<rparr>, g)
      else (\<lparr>winner = None, reason = None\<rparr>, g))"

definition moveShip :: "int \<Rightarrow> int \<Rightarrow> GameState \<Rightarrow> GameState" where
  "moveShip ddx ddy g =
     g\<lparr>shipPosition := \<lparr>xpos = xpos (shipPosition g) + ddx,
                         ypos = ypos (shipPosition g) + ddy\<rparr>\<rparr>"

definition nextPhase :: "GameState \<Rightarrow> error + GameState" where
  "nextPhase g =
     (let phaseOrder = [NAVIGATION_SELECTION, MUTINY, NAVIGATION, VOTING];
          currentIndex = indexOf phaseOrder (currentPhase g)
      in if currentIndex = -1 \<or> currentIndex = int (length phaseOrder) - 1
         then rotateCaptain (g\<lparr>currentTurn := currentTurn g + 1,
                                currentPhase := NAVIGATION_SELECTION\<rparr>)
         else Inr (g\<lparr>currentPhase := phaseOrder ! nat (currentIndex + 1)\<rparr>))"


subsection \<open>Role assignment and the start of a game\<close>

text \<open>
  \<^verbatim>\<open>playerArray\<close> holds references to the player objects of the map: a reference is the
  player's position in join order. \<^verbatim>\<open>Math.floor(Math.random() * n)\<close> is some index
  below \<open>n\<close>: the model takes the raw draws as a parameter (\<open>rnd i\<close> is the draw of
  loop iteration \<open>i\<close>) and reduces each to its range.
\<close>

fun shuffle :: "(nat \<Rightarrow> nat) \<Rightarrow> nat \<Rightarrow> 'a list \<Rightarrow> 'a list" where
  "shuffle rnd 0 arr = arr"
| "shuffle rnd (Suc i) arr =
     (let j = rnd (Suc i) mod (Suc i + 1)
      in shuffle rnd i (arr[Suc i := arr ! j, j := arr ! Suc i]))"

definition roleCounts :: "nat \<Rightarrow> nat \<times> nat \<times> nat" where
  "roleCounts playerCount =
     (if playerCount = 5 then (2, 1, 0)
      else if playerCount = 6 then (2, 1, 0)
      else if playerCount = 7 then (2, 1, 1)
      else if playerCount = 8 then (3, 1, 1)
      else (3, 1, 2))"

definition setRole :: "nat \<Rightarrow> PlayerRole \<Rightarrow> GameState \<Rightarrow> GameState" where
  "setRole ref r g = g\<lparr>players := (players g)[ref := (players g ! ref)\<lparr>role := Some r\<rparr>]\<rparr>"

text \<open>The three counted loops and the closing \<^verbatim>\<open>while\<close> loop. The first argument of a
  counted loop is the number of iterations left; \<open>playerArray[index]\<close> past the end is
  \<^verbatim>\<open>undefined\<close>, and the write to its \<^verbatim>\<open>role\<close> throws.\<close>

fun assignCultLeaders :: "nat \<Rightarrow> nat list \<Rightarrow> nat \<Rightarrow> GameState \<Rightarrow> error + nat \<times> GameState" where
  "assignCultLeaders 0 arr index g = Inr (index, g)"
| "assignCultLeaders (Suc n) arr index g =
     (if index < length arr
      then assignCultLeaders n arr (index + 1)
             ((setRole (arr ! index) CULT_LEADER g)
                \<lparr>cultLeader := Some (userId (players g ! (arr ! index)))\<rparr>)
      else Inl TypeError)"

fun assignRoleLoop :: "PlayerRole \<Rightarrow> nat \<Rightarrow> nat list \<Rightarrow> nat \<Rightarrow> GameState \<Rightarrow> error + nat \<times> GameState" where
  "assignRoleLoop r 0 arr index g = Inr (index, g)"
| "assignRoleLoop r (Suc n) arr index g =
     (if index < length arr
      then assignRoleLoop r n arr (index + 1) (setRole (arr ! index) r g)
      else Inl TypeError)"

function assignSailors :: "nat list \<Rightarrow> nat \<Rightarrow> GameState \<Rightarrow> GameState" where
  "assignSailors arr index g =
     (if index < length arr
      then assignSailors arr (index + 1) (setRole (arr ! index) SAILOR g)
      else g)"
  by pat_completeness auto
termination
  by (relation "measure (\<lambda>(arr, index, g). length arr - index)") auto

declare assignSailors.simps [simp del]

definition assignRoles :: "(nat \<Rightarrow> nat) \<Rightarrow> GameState \<Rightarrow> error + GameState" where
  "assignRoles rnd g =
     (let playerCount = length (players g);
          playerArray = shuffle rnd (length (players g) - 1) [0..<length (players g)]
      in case roleCounts playerCount of
           (pirateCount, cultLeaderCount, cultistCount) \<Rightarrow>
             (case assignCultLeaders cultLeaderCount playerArray 0 g of
                Inl e \<Rightarrow> Inl e
              | Inr (i1, g1) \<Rightarrow>
                  (case assignRoleLoop PIRATE pirateCount playerArray i1 g1 of
                     Inl e \<Rightarrow> Inl e
                   | Inr (i2, g2) \<Rightarrow>
                       (case assignRoleLoop CULTIST cultistCount playerArray i2 g2 of
                          Inl e \<Rightarrow> Inl e
                        | Inr (i3, g3) \<Rightarrow> Inr (assignSailors playerArray i3 g3)))))"

definition assignCaptain :: "nat \<Rightarrow> GameState \<Rightarrow> GameState" where
  "assignCaptain r g =
     (let alivePlayers = getAlivePlayers g
      in if length alivePlayers > 0
         then (let randomIndex = r mod length alivePlayers
               in g\<lparr>captain := Some (userId (alivePlayers ! randomIndex))\<rparr>)
         else g)"

definition start :: "(nat \<Rightarrow> nat) \<Rightarrow> nat \<Rightarrow> GameState \<Rightarrow> error + GameState" where
  "start rnd r g =
     (if \<not> canStart g then Inl CannotStart
      else (case assignRoles rnd (g\<lparr>status := IN_PROGRESS, currentPhase := NIGHT\<rparr>) of
              Inl e \<Rightarrow> Inl e
            | Inr g1 \<Rightarrow> Inr (assignCaptain r g1)))"

text \<open>
  Modelled from the spec: \<^verbatim>\<open>electCaptainByGuns\<close> is called by \<^verbatim>\<open>resolveMutiny\<close> but
  its body is in none of the source files. The spec: among eligible crew (alive,
  excluding the previous captain), find the maximum gun count; break ties uniformly at
  random among all players at that maximum; assign as new captain. The random index is
  drawn as in \<^verbatim>\<open>assignCaptain\<close>. The spec is silent on an empty crew; the model leaves
  the session as it is there, and no result below rests on that branch.
\<close>

definition electCaptainByGuns :: "nat \<Rightarrow> GameState \<Rightarrow> GameState" where
  "electCaptainByGuns r g =
     (let eligible = filter (\<lambda>p. Some (userId p) \<noteq> captain g) (getAlivePlayers g)
      in if eligible = [] then g
         else (let maxGuns = fold max (map guns eligible) (guns (hd eligible));
                   candidates = filter (\<lambda>p. guns p = maxGuns) eligible;
                   randomIndex = r mod length candidates
               in g\<lparr>captain := Some (userId (candidates ! randomIndex))\<rparr>))"

section \<open>The turn controller (TurnManager.ts)\<close>

record NavigationMovement =
  dx :: int
  dy :: int

record NavigationDirection = NavigationMovement +
  name :: string

text \<open>
  The Slack client is the log of the calls made on it. A message is one of the
  templates of the source with the values it interpolates; a recipient is the channel,
  one user inside the channel (\<^verbatim>\<open>postEphemeral\<close>), one user's direct conversation, or
  the modal opened for a user. Delivery itself is outside the model.
\<close>

datatype recipient = Channel | Ephemeral "string option" | Direct "string option" | Modal string

datatype proposer = Captain | Lieutenant

datatype message =
    TurnAnnouncement int "string option"
  | TeamSelectionPrompt "string list"
  | TeamSelected string string
  | OnlyCaptainCanConfirm
  | SelectBothFirst
  | MustBeDifferent
  | MutinyPhaseOpened "string option" nat
  | MutinyResults int int int bool "string option"
  | CaptainCannotVote
  | MutinyVoteModal int int
  | VoteRecorded int
  | VoteCount nat nat
  | NavigationPhaseOpened
  | NavigationChoiceCards proposer "NavigationDirection list"
  | NavigatorFinalChoice "NavigationMovement list"
  | WaitingForNavigator
  | AlreadyLocked
  | OnlyCaptainCanChoose
  | OnlyLieutenantCanChoose
  | OnlyNavigatorCanChoose
  | ChoiceRecorded NavigationMovement
  | NavigatorChose NavigationMovement
  | DiscussionPhase
  | GameOver Winner

text \<open>
  \<^verbatim>\<open>mutinyVotes\<close> is a \<^verbatim>\<open>Map<string, number>\<close> and \<^verbatim>\<open>mutinyEligibleVoters\<close> a
  \<^verbatim>\<open>Set<string>\<close>, both in insertion order. \<^verbatim>\<open>mutinyTimeoutId\<close> records whether the
  fallback timer is armed. \<^verbatim>\<open>navigationCards\<close> is never read or written.
\<close>

record TurnManager =
  game :: GameState
  client :: "(recipient \<times> message) list"
  mutinyVotes :: "(string \<times> int) list"
  selectedLieutenant :: "string option"
  selectedNavigator :: "string option"
  mutinyEligibleVoters :: "string list"
  mutinyTimeoutId :: bool
  captainNavigationChoice :: "NavigationMovement option"
  lieutenantNavigationChoice :: "NavigationMovement option"
  captainChoiceLocked :: bool
  lieutenantChoiceLocked :: bool
  navigatorChoiceLocked :: bool
  lastMutinySucceeded :: bool

definition newTurnManager :: "GameState \<Rightarrow> TurnManager" where
  "newTurnManager g =
     \<lparr>game = g, client = [], mutinyVotes = [], selectedLieutenant = None,
      selectedNavigator = None, mutinyEligibleVoters = [], mutinyTimeoutId = False,
      captainNavigationChoice = None, lieutenantNavigationChoice = None,
      captainChoiceLocked = False, lieutenantChoiceLocked = False,
      navigatorChoiceLocked = False, lastMutinySucceeded = False\<rparr>"

text \<open>What one external event draws at random: the index \<^verbatim>\<open>electCaptainByGuns\<close> draws,
  and the arrays the two random sorts of \<^verbatim>\<open>sendNavigationChoiceCards\<close> leave.\<close>

record Chance =
  electDraw :: nat
  captainCards :: "NavigationDirection list"
  lieutenantCards :: "NavigationDirection list"

definition post :: "recipient \<Rightarrow> message \<Rightarrow> TurnManager \<Rightarrow> TurnManager" where
  "post r m tm = tm\<lparr>client := client tm @ [(r, m)]\<rparr>"

text \<open>JavaScript truthiness of a \<^verbatim>\<open>string | null\<close>: neither null nor the empty string.\<close>

fun truthy :: "string option \<Rightarrow> bool" where
  "truthy None = False"
| "truthy (Some s) = (s \<noteq> [])"

fun mapSet :: "'k \<Rightarrow> 'v \<Rightarrow> ('k \<times> 'v) list \<Rightarrow> ('k \<times> 'v) list" where
  "mapSet k v [] = [(k, v)]"
| "mapSet k v (e # m) = (if fst e = k then (k, v) # m else e # mapSet k v m)"

definition setAdd :: "'a \<Rightarrow> 'a list \<Rightarrow> 'a list" where
  "setAdd a s = (if a \<in> set s then s else s @ [a])"

definition allDirections :: "NavigationDirection list" where
  "allDirections =
     [\<lparr>dx = 0, dy = 1, name = ''North''\<rparr>,
      \<lparr>dx = 0, dy = -1, name = ''South''\<rparr>,
      \<lparr>dx = 1, dy = 0, name = ''East''\<rparr>,
      \<lparr>dx = -1, dy = 0, name = ''West''\<rparr>]"

text \<open>\<^verbatim>\<open>sendNavigationChoiceCards\<close>: \<open>shuffled\<close> is the array the random sort of
  \<^verbatim>\<open>allDirections\<close> leaves; its first two entries become the buttons.\<close>

definition sendNavigationChoiceCards ::
  "NavigationDirection list \<Rightarrow> string option \<Rightarrow> proposer \<Rightarrow> TurnManager \<Rightarrow> TurnManager" where
  "sendNavigationChoiceCards shuffled u r tm =
     (let directions = take 2 shuffled
      in post (Direct u) (NavigationChoiceCards r directions) tm)"

definition sendNavigatorFinalChoice :: "TurnManager \<Rightarrow> TurnManager" where
  "sendNavigatorFinalChoice tm =
     (case (captainNavigationChoice tm, lieutenantNavigationChoice tm) of
        (Some c, Some l) \<Rightarrow>
          post Channel WaitingForNavigator
            (post (Direct (navigator (game tm))) (NavigatorFinalChoice [c, l]) tm)
      | _ \<Rightarrow> tm)"

definition navigationSelectionPhase :: "TurnManager \<Rightarrow> TurnManager" where
  "navigationSelectionPhase tm =
     (let alivePlayers = filter (\<lambda>p. Some (userId p) \<noteq> captain (game tm))
                           (getAlivePlayers (game tm));
          playerOptions = map userId alivePlayers
      in post (Ephemeral (captain (game tm))) (TeamSelectionPrompt playerOptions)
           (post Channel (TurnAnnouncement (currentTurn (game tm)) (captain (game tm))) tm))"

definition mutinyPhase :: "TurnManager \<Rightarrow> TurnManager" where
  "mutinyPhase tm =
     (let tm1 = tm\<lparr>mutinyVotes := [], mutinyEligibleVoters := []\<rparr>;
          alivePlayers = filter (\<lambda>p. Some (userId p) \<noteq> captain (game tm1))
                           (getAlivePlayers (game tm1));
          tm2 = tm1\<lparr>mutinyEligibleVoters :=
                      fold (\<lambda>p s. setAdd (userId p) s) alivePlayers (mutinyEligibleVoters tm1)\<rparr>;
          tm3 = post Channel
                  (MutinyPhaseOpened (captain (game tm2)) (length (mutinyEligibleVoters tm2))) tm2
      in tm3\<lparr>mutinyTimeoutId := True\<rparr>)"

definition navigationPhase :: "Chance \<Rightarrow> TurnManager \<Rightarrow> TurnManager" where
  "navigationPhase ch tm =
     (let tm1 = tm\<lparr>captainNavigationChoice := None, lieutenantNavigationChoice := None,
                   captainChoiceLocked := False, lieutenantChoiceLocked := False,
                   navigatorChoiceLocked := False\<rparr>;
          tm2 = post Channel NavigationPhaseOpened tm1;
          tm3 = sendNavigationChoiceCards (captainCards ch) (captain (game tm2)) Captain tm2
      in sendNavigationChoiceCards (lieutenantCards ch) (lieutenant (game tm3)) Lieutenant tm3)"

text \<open>\<^verbatim>\<open>votingPhase\<close> posts the discussion message and arms a 30 second timer whose
  firing is the next external event (\<^verbatim>\<open>endTurn\<close>).\<close>

definition votingPhase :: "TurnManager \<Rightarrow> TurnManager" where
  "votingPhase tm = post Channel DiscussionPhase tm"

definition executePhase :: "Chance \<Rightarrow> TurnManager \<Rightarrow> TurnManager" where
  "executePhase ch tm =
     (case currentPhase (game tm) of
        NAVIGATION_SELECTION \<Rightarrow> navigationSelectionPhase tm
      | MUTINY \<Rightarrow> mutinyPhase tm
      | NAVIGATION \<Rightarrow> navigationPhase ch tm
      | VOTING \<Rightarrow> votingPhase tm
      | _ \<Rightarrow> tm)"

definition startTurn :: "Chance \<Rightarrow> TurnManager \<Rightarrow> error + TurnManager" where
  "startTurn ch tm =
     (let wasVotingPhase = (currentPhase (game tm) = VOTING)
      in case nextPhase (game tm) of
           Inl e \<Rightarrow> Inl e
         | Inr g1 \<Rightarrow>
             (let g2 = (if wasVotingPhase \<and> truthy (lieutenant g1) \<and> truthy (navigator g1)
                           \<and> currentPhase g1 = NAVIGATION_SELECTION
                        then g1\<lparr>currentPhase := MUTINY\<rparr> else g1)
              in Inr (executePhase ch (tm\<lparr>game := g2\<rparr>))))"

text \<open>\<^verbatim>\<open>resolveMutiny\<close>: the tally is the \<^verbatim>\<open>for ... of\<close> loop over the votes, the crew's
  guns the \<^verbatim>\<open>map\<close>/\<^verbatim>\<open>reduce\<close> over the eligible voters (\<open>guns || 0\<close> for a missing
  player), the threshold \<open>Math.floor(totalCrewGuns / 2) + 1\<close>. The vote details and the
  count of non-voters only feed the wording of the result message.\<close>

definition resolveMutiny :: "Chance \<Rightarrow> TurnManager \<Rightarrow> TurnManager" where
  "resolveMutiny ch tm =
     (let tm0 = tm\<lparr>mutinyTimeoutId := False\<rparr>;
          totalGunsUsed = fold (\<lambda>(u, n) total. total + n) (mutinyVotes tm0) 0;
          totalCrewGuns =
            foldl (\<lambda>total n. total + n) 0
              (map (\<lambda>u. case getPlayer (game tm0) u of None \<Rightarrow> 0 | Some p \<Rightarrow> guns p)
                 (mutinyEligibleVoters tm0));
          mutinyThreshold = totalCrewGuns div 2 + 1;
          mutinySucceeded = (totalGunsUsed \<ge> mutinyThreshold)
      in if mutinySucceeded
         then (let g1 = electCaptainByGuns (electDraw ch) (game tm0);
                   tm1 = tm0\<lparr>game := g1, lastMutinySucceeded := True\<rparr>;
                   tm2 = tm1\<lparr>game := (game tm1)\<lparr>currentPhase := NAVIGATION_SELECTION\<rparr>\<rparr>
               in executePhase ch
                    (post Channel
                       (MutinyResults totalGunsUsed totalCrewGuns mutinyThreshold True
                          (captain (game tm2))) tm2))
         else (let tm1 = tm0\<lparr>game := (game tm0)\<lparr>currentPhase := NAVIGATION\<rparr>,
                             lastMutinySucceeded := False\<rparr>
               in executePhase ch
                    (post Channel
                       (MutinyResults totalGunsUsed totalCrewGuns mutinyThreshold False
                          (captain (game tm1))) tm1)))"

definition endTurn :: "Chance \<Rightarrow> TurnManager \<Rightarrow> error + TurnManager" where
  "endTurn ch tm =
     (case winner (fst (checkWinCondition (game tm))) of
        Some w \<Rightarrow> Inr (post Channel (GameOver w) tm)
      | None \<Rightarrow> startTurn ch tm)"

definition openMutinyVoteModal :: "string \<Rightarrow> TurnManager \<Rightarrow> TurnManager" where
  "openMutinyVoteModal u tm =
     (case getPlayer (game tm) u of
        None \<Rightarrow> tm
      | Some player \<Rightarrow>
          if \<not> isAlive player then tm
          else if Some u = captain (game tm)
          then post (Ephemeral (Some u)) CaptainCannotVote tm
          else post (Modal u) (MutinyVoteModal 0 (guns player)) tm)"

text \<open>
  An action is its \<^verbatim>\<open>action_id\<close> with what the handler reads of it: the selected
  option of a select menu, or the \<open>dx\<close> and \<open>dy\<close> of the JSON in \<^verbatim>\<open>action.value\<close>.
\<close>

datatype action =
    select_lieutenant string
  | select_navigator string
  | confirm_navigation_team
  | cast_mutiny_vote
  | end_turn
  | nav_choice_captain NavigationMovement
  | nav_choice_lieutenant NavigationMovement
  | navigate_final NavigationMovement
  | other_action

fun handleAction :: "Chance \<Rightarrow> action \<Rightarrow> string \<Rightarrow> TurnManager \<Rightarrow> error + TurnManager" where
  "handleAction ch (select_lieutenant v) u tm = Inr (tm\<lparr>selectedLieutenant := Some v\<rparr>)"
| "handleAction ch (select_navigator v) u tm = Inr (tm\<lparr>selectedNavigator := Some v\<rparr>)"
| "handleAction ch confirm_navigation_team u tm =
     (if Some u \<noteq> captain (game tm)
      then Inr (post (Ephemeral (Some u)) OnlyCaptainCanConfirm tm)
      else if \<not> truthy (selectedLieutenant tm) \<or> \<not> truthy (selectedNavigator tm)
      then Inr (post (Ephemeral (Some u)) SelectBothFirst tm)
      else if selectedLieutenant tm = selectedNavigator tm
      then Inr (post (Ephemeral (Some u)) MustBeDifferent tm)
      else (let l = the (selectedLieutenant tm);
                n = the (selectedNavigator tm);
                tm1 = tm\<lparr>game := setNavigationTeam l n (game tm)\<rparr>;
                tm2 = post Channel (TeamSelected l n) tm1;
                tm3 = tm2\<lparr>game := (game tm2)\<lparr>currentPhase := MUTINY\<rparr>\<rparr>;
                tm4 = (if lastMutinySucceeded tm3 then tm3\<lparr>lastMutinySucceeded := False\<rparr>
                       else tm3)
            in Inr (executePhase ch tm4)))"
| "handleAction ch cast_mutiny_vote u tm = Inr (openMutinyVoteModal u tm)"
| "handleAction ch end_turn u tm = endTurn ch tm"
| "handleAction ch (nav_choice_captain payload) u tm =
     (if captainChoiceLocked tm
      then Inr (post (Ephemeral (Some u)) AlreadyLocked tm)
      else if Some u \<noteq> captain (game tm)
      then Inr (post (Ephemeral (Some u)) OnlyCaptainCanChoose tm)
      else (let tm1 = tm\<lparr>captainNavigationChoice := Some \<lparr>dx = dx payload, dy = dy payload\<rparr>,
                         captainChoiceLocked := True\<rparr>;
                tm2 = post (Ephemeral (Some u))
                        (ChoiceRecorded (the (captainNavigationChoice tm1))) tm1
            in if lieutenantNavigationChoice tm2 \<noteq> None
               then Inr (sendNavigatorFinalChoice tm2) else Inr tm2))"
| "handleAction ch (nav_choice_lieutenant payload) u tm =
     (if lieutenantChoiceLocked tm
      then Inr (post (Ephemeral (Some u)) AlreadyLocked tm)
      else if Some u \<noteq> lieutenant (game tm)
      then Inr (post (Ephemeral (Some u)) OnlyLieutenantCanChoose tm)
      else (let tm1 = tm\<lparr>lieutenantNavigationChoice := Some \<lparr>dx = dx payload, dy = dy payload\<rparr>,
                         lieutenantChoiceLocked := True\<rparr>;
                tm2 = post (Ephemeral (Some u))
                        (ChoiceRecorded (the (lieutenantNavigationChoice tm1))) tm1
            in if captainNavigationChoice tm2 \<noteq> None
               then Inr (sendNavigatorFinalChoice tm2) else Inr tm2))"
| "handleAction ch (navigate_final payload) u tm =
     (if navigatorChoiceLocked tm
      then Inr (post (Ephemeral (Some u)) AlreadyLocked tm)
      else if Some u \<noteq> navigator (game tm)
      then Inr (post (Ephemeral (Some u)) OnlyNavigatorCanChoose tm)
      else (let movement = \<lparr>dx = dx payload, dy = dy payload\<rparr>;
                tm1 = tm\<lparr>navigatorChoiceLocked := True\<rparr>;
                tm2 = tm1\<lparr>game := moveShip (dx movement) (dy movement) (game tm1)\<rparr>;
                tm3 = post Channel (NavigatorChose movement) tm2;
                tm4 = tm3\<lparr>game := (game tm3)\<lparr>currentPhase := VOTING\<rparr>\<rparr>
            in Inr (executePhase ch tm4)))"
| "handleAction ch other_action u tm = Inr tm"

text \<open>A view submission is its \<^verbatim>\<open>callback_id\<close>; for the mutiny modal, with the
  integer \<^verbatim>\<open>parseInt\<close> reads from the (required, whole-number) input field.\<close>

datatype view = mutiny_vote_modal int | other_view

fun handleViewSubmission :: "Chance \<Rightarrow> view \<Rightarrow> string \<Rightarrow> TurnManager \<Rightarrow> TurnManager" where
  "handleViewSubmission ch (mutiny_vote_modal gunsCount) u tm =
     (let tm1 = tm\<lparr>mutinyVotes := mapSet u gunsCount (mutinyVotes tm)\<rparr>;
          tm2 = post (Ephemeral (Some u)) (VoteRecorded gunsCount) tm1
      in if length (mutinyVotes tm2) = length (mutinyEligibleVoters tm2)
         then resolveMutiny ch tm2
         else post Channel
                (VoteCount (length (mutinyVotes tm2)) (length (mutinyEligibleVoters tm2))) tm2)"
| "handleViewSubmission ch other_view u tm = tm"

section \<open>Notions of the specification\<close>

text \<open>The quantities of the mutiny rule as the spec words them: the guns used are the
  sum of the recorded submissions, the crew's guns the sum of the eligible voters'
  current gun counts (nothing for an id that is no player).\<close>

definition spec_totalGunsUsed :: "TurnManager \<Rightarrow> int" where
  "spec_totalGunsUsed tm = sum_list (map snd (mutinyVotes tm))"

definition spec_totalCrewGuns :: "TurnManager \<Rightarrow> int" where
  "spec_totalCrewGuns tm =
     (\<Sum>u\<leftarrow>mutinyEligibleVoters tm. case getPlayer (game tm) u of None \<Rightarrow> 0 | Some p \<Rightarrow> guns p)"

definition spec_mutinySucceeds :: "TurnManager \<Rightarrow> bool" where
  "spec_mutinySucceeds tm = (spec_totalGunsUsed tm \<ge> spec_totalCrewGuns tm div 2 + 1)"

text \<open>The crew an election draws from (alive, not the captain) and, among it, the
  players no crew member outguns.\<close>

definition crew :: "GameState \<Rightarrow> Player list" where
  "crew g = filter (\<lambda>p. isAlive p \<and> Some (userId p) \<noteq> captain g) (players g)"

definition topGuns :: "GameState \<Rightarrow> Player list" where
  "topGuns g = filter (\<lambda>p. list_all (\<lambda>q. guns q \<le> guns p) (crew g)) (crew g)"

text \<open>The unit vector of a card, and the four cardinal ones.\<close>

definition vector :: "'a NavigationMovement_scheme \<Rightarrow> int \<times> int" where
  "vector d = (dx d, dy d)"

definition cardinal :: "(int \<times> int) list" where
  "cardinal = [(0, 1), (0, -1), (1, 0), (-1, 0)]"

text \<open>How many players hold a role.\<close>

definition countRole :: "PlayerRole \<Rightarrow> GameState \<Rightarrow> nat" where
  "countRole r g = length (filter (\<lambda>p. role p = Some r) (players g))"

text \<open>The writes of the assignment loops put together: \<open>stamp\<close> sets, in order, the
  role of each referenced player; \<open>roleRefs\<close> pairs the references of a shuffled array
  with the roles the four loops write.\<close>

definition stamp :: "(nat \<times> PlayerRole) list \<Rightarrow> Player list \<Rightarrow> Player list" where
  "stamp xs ps = fold (\<lambda>e ps. ps[fst e := (ps ! fst e)\<lparr>role := Some (snd e)\<rparr>]) xs ps"

definition roleRefs :: "nat \<Rightarrow> nat \<Rightarrow> nat list \<Rightarrow> (nat \<times> PlayerRole) list" where
  "roleRefs pc cc arr =
     map (\<lambda>ref. (ref, CULT_LEADER)) (take 1 arr)
     @ map (\<lambda>ref. (ref, PIRATE)) (take pc (drop 1 arr))
     @ map (\<lambda>ref. (ref, CULTIST)) (take cc (drop (1 + pc) arr))
     @ map (\<lambda>ref. (ref, SAILOR)) (drop (1 + pc + cc) arr)"

section \<open>Sessions used as examples\<close>

text \<open>A player as \<^verbatim>\<open>addPlayer\<close> creates it, and a running session of such players.\<close>

definition joined :: "string \<Rightarrow> Player" where
  "joined u = \<lparr>userId = u, username = ''Player'', role = None, isAlive = True, guns = 3,
                characterCard = None, characterUsed = False\<rparr>"

definition crewOf :: "string list \<Rightarrow> GameState" where
  "crewOf us = (newGameState ''C1'' (hd us))\<lparr>players := map joined us, status := IN_PROGRESS\<rparr>"

text \<open>The end of a discussion phase with a navigation team in place, and a source of
  chance that draws index 0 and leaves the cards in their order.\<close>

definition votingEnded :: TurnManager where
  "votingEnded = newTurnManager
     ((crewOf [''A'', ''B'', ''C'', ''D'', ''E''])
        \<lparr>captain := Some ''A'', lieutenant := Some ''B'', navigator := Some ''C'',
         currentPhase := VOTING, currentTurn := 1\<rparr>)"

definition calm :: Chance where
  "calm = \<lparr>electDraw = 0, captainCards = allDirections, lieutenantCards = allDirections\<rparr>"

text \<open>A mutiny round of four: A is captain; B, C and D may vote, with three guns each.\<close>

definition mutinyRound :: "(string \<times> int) list \<Rightarrow> TurnManager" where
  "mutinyRound votes =
     (newTurnManager ((crewOf [''A'', ''B'', ''C'', ''D''])
        \<lparr>captain := Some ''A'', lieutenant := Some ''B'', navigator := Some ''C'',
         currentPhase := MUTINY, currentTurn := 1\<rparr>))
       \<lparr>mutinyEligibleVoters := [''B'', ''C'', ''D''], mutinyVotes := votes,
        mutinyTimeoutId := True\<rparr>"

text \<open>A navigation phase of five (captain A, lieutenant B, navigator C, ship at the
  origin) in which the captain has locked North and the lieutenant South.\<close>

definition bothLocked :: TurnManager where
  "bothLocked =
     (newTurnManager ((crewOf [''A'', ''B'', ''C'', ''D'', ''E''])
        \<lparr>captain := Some ''A'', lieutenant := Some ''B'', navigator := Some ''C'',
         currentPhase := NAVIGATION, currentTurn := 1\<rparr>))
       \<lparr>captainNavigationChoice := Some \<lparr>dx = 0, dy = 1\<rparr>,
        lieutenantNavigationChoice := Some \<lparr>dx = 0, dy = -1\<rparr>,
        captainChoiceLocked := True, lieutenantChoiceLocked := True\<rparr>"

section \<open>Properties of the session\<close>

lemma getAlivePlayers_filter [simp]:
  "getAlivePlayers g = filter isAlive (players g)"
  by (simp add: getAlivePlayers_def getAllPlayers_def)

text \<open>
  C7. \<^verbatim>\<open>checkWinCondition\<close> reads the ship position and nothing else, tests the three
  regions in the order Sailors, Pirates, Cult (the first that matches wins) and
  returns no winner otherwise; it leaves the session as it found it. At the boundaries
  (10,5) is Sailors, (10,-5) is Pirates, (0,10) is Cult and (9,5) has no winner.
\<close>

theorem C7_checkWinCondition:
  "winner (fst (checkWinCondition g)) =
     (if xpos (shipPosition g) \<ge> 10 \<and> ypos (shipPosition g) \<ge> 5 then Some SAILORS
      else if xpos (shipPosition g) \<ge> 10 \<and> ypos (shipPosition g) \<le> -5 then Some PIRATES
      else if ypos (shipPosition g) \<ge> 10 then Some CULT
      else None)
   \<and> snd (checkWinCondition g) = g
   \<and> fst (checkWinCondition (g\<lparr>shipPosition := shipPosition g'\<rparr>)) = fst (checkWinCondition g')
   \<and> winner (fst (checkWinCondition (g\<lparr>shipPosition := \<lparr>xpos = 10, ypos = 5\<rparr>\<rparr>))) = Some SAILORS
   \<and> winner (fst (checkWinCondition (g\<lparr>shipPosition := \<lparr>xpos = 10, ypos = -5\<rparr>\<rparr>))) = Some PIRATES
   \<and> winner (fst (checkWinCondition (g\<lparr>shipPosition := \<lparr>xpos = 0, ypos = 10\<rparr>\<rparr>))) = Some CULT
   \<and> winner (fst (checkWinCondition (g\<lparr>shipPosition := \<lparr>xpos = 9, ypos = 5\<rparr>\<rparr>))) = None"
  by (simp add: checkWinCondition_def)

theorem C7_checkWinCondition_witness:
  "winner (fst (checkWinCondition
      ((newGameState ''C1'' ''U1'')\<lparr>shipPosition := \<lparr>xpos = 12, ypos = 7\<rparr>\<rparr>))) = Some SAILORS
   \<and> snd (checkWinCondition (newGameState ''C1'' ''U1'')) = newGameState ''C1'' ''U1''"
  using C7_checkWinCondition
          [of "(newGameState ''C1'' ''U1'')\<lparr>shipPosition := \<lparr>xpos = 12, ypos = 7\<rparr>\<rparr>"]
        C7_checkWinCondition [of "newGameState ''C1'' ''U1''"]
  by simp

subsection \<open>Captain rotation and elimination\<close>

lemma findIndex_bounds: "-1 \<le> findIndex P as \<and> findIndex P as < int (length as)"
  by (induction as) (auto simp: Let_def)

lemma findIndex_none: "findIndex P as = -1 \<longleftrightarrow> (\<forall>a\<in>set as. \<not> P a)"
proof (induction as)
  case Nil
  then show ?case by simp
next
  case (Cons a as)
  have "-1 \<le> findIndex P as" using findIndex_bounds by blast
  with Cons show ?case by (auto simp: Let_def)
qed

lemma findIndex_append:
  "\<forall>a\<in>set xs. \<not> P a \<Longrightarrow> P c \<Longrightarrow> findIndex P (xs @ c # ys) = int (length xs)"
  by (induction xs) (auto simp: Let_def)

lemma updatePlayer_map:
  "distinct (map userId ps) \<Longrightarrow>
   updatePlayer u f ps = map (\<lambda>p. if userId p = u then f p else p) ps"
proof (induction ps)
  case Nil
  then show ?case by simp
next
  case (Cons p ps)
  show ?case
  proof (cases "userId p = u")
    case True
    from Cons.prems have "userId p \<notin> userId ` set ps" by simp
    with True have "\<forall>q\<in>set ps. userId q \<noteq> u" by blast
    then have "map (\<lambda>p. if userId p = u then f p else p) ps = ps"
      by (induction ps) auto
    with True show ?thesis by simp
  next
    case False
    with Cons show ?thesis by simp
  qed
qed

lemma updatePlayer_length [simp]: "length (updatePlayer u f ps) = length ps"
  by (induction ps) auto

lemma updatePlayer_other:
  "p \<in> set ps \<Longrightarrow> userId p \<noteq> u \<Longrightarrow> p \<in> set (updatePlayer u f ps)"
  by (induction ps) auto

lemma alive_after_kill:
  "distinct (map userId ps) \<Longrightarrow>
   filter isAlive (updatePlayer u (\<lambda>p. p\<lparr>isAlive := False\<rparr>) ps)
     = filter (\<lambda>p. isAlive p \<and> userId p \<noteq> u) ps"
  by (simp add: updatePlayer_map filter_map comp_def) (induction ps; auto)

lemma rotateCaptain_error: "rotateCaptain g = Inl e \<longleftrightarrow> (e = TypeError \<and> getAlivePlayers g = [])"
  by (auto simp: rotateCaptain_def Let_def)

lemma rotateCaptain_next_index:
  assumes "filter isAlive (players g) \<noteq> []"
  shows "nat ((findIndex P (filter isAlive (players g)) + 1) mod int (length (filter isAlive (players g))))
           < length (filter isAlive (players g))"
proof -
  let ?as = "filter isAlive (players g)"
  have "0 < int (length ?as)" using assms by simp
  then have "(findIndex P ?as + 1) mod int (length ?as) < int (length ?as)"
    by (rule pos_mod_bound)
  moreover have "0 \<le> (findIndex P ?as + 1) mod int (length ?as)"
    using \<open>0 < int (length ?as)\<close> by (rule pos_mod_sign)
  ultimately show ?thesis by linarith
qed

lemma rotateCaptain_ok:
  assumes "getAlivePlayers g \<noteq> []"
  shows "\<exists>p\<in>set (getAlivePlayers g). rotateCaptain g = Inr (g\<lparr>captain := Some (userId p)\<rparr>)"
proof -
  let ?as = "filter isAlive (players g)"
  let ?i = "nat ((findIndex (\<lambda>p. Some (userId p) = captain g) ?as + 1) mod int (length ?as))"
  have ne: "?as \<noteq> []" using assms by simp
  have "?i < length ?as" using ne by (rule rotateCaptain_next_index)
  then have "?as ! ?i \<in> set ?as" by (rule nth_mem)
  moreover have "rotateCaptain g = Inr (g\<lparr>captain := Some (userId (?as ! ?i))\<rparr>)"
    using ne by (simp add: rotateCaptain_def Let_def)
  ultimately show ?thesis by (metis getAlivePlayers_filter)
qed

lemma rotateCaptain_next_alive:
  assumes al: "getAlivePlayers g = xs @ c # ys"
    and cap: "captain g = Some (userId c)"
    and d: "distinct (map userId (players g))"
  shows "rotateCaptain g = Inr (g\<lparr>captain := Some (userId (hd (ys @ xs @ [c])))\<rparr>)"
proof -
  have da: "distinct (map userId (xs @ c # ys))"
    using d al by (metis distinct_map_filter getAlivePlayers_filter)
  then have "userId c \<notin> userId ` set xs" by simp
  then have notin: "\<forall>a\<in>set xs. \<not> Some (userId a) = captain g"
    using cap by (simp add: image_iff) metis
  have fi: "findIndex (\<lambda>p. Some (userId p) = captain g) (xs @ c # ys) = int (length xs)"
    using notin cap by (simp add: findIndex_append)
  show ?thesis
  proof (cases ys)
    case Nil
    then have "(int (length xs) + 1) mod int (length (xs @ c # ys)) = 0"
      by (simp add: add.commute)
    with al fi Nil show ?thesis
      by (cases xs) (simp_all add: rotateCaptain_def Let_def getAlivePlayers_def getAllPlayers_def)
  next
    case (Cons y ys')
    then have "(int (length xs) + 1) mod int (length (xs @ c # ys)) = int (length xs) + 1"
      by simp
    moreover have "(xs @ c # ys) ! nat (int (length xs) + 1) = y"
      using Cons by (simp add: nth_append nat_add_distrib)
    ultimately show ?thesis using al fi Cons
      by (simp add: rotateCaptain_def Let_def getAlivePlayers_def getAllPlayers_def)
  qed
qed

lemma eliminate_captain_first_alive:
  assumes d: "distinct (map userId (players g))"
    and pl: "getPlayer g u = Some c"
    and cap: "captain g = Some u"
    and rest: "filter (\<lambda>p. isAlive p \<and> userId p \<noteq> u) (players g) = f # fs"
  shows "eliminatePlayer u g =
     Inr (g\<lparr>players := updatePlayer u (\<lambda>p. p\<lparr>isAlive := False\<rparr>) (players g),
            captain := Some (userId f)\<rparr>)"
proof -
  let ?g1 = "g\<lparr>players := updatePlayer u (\<lambda>p. p\<lparr>isAlive := False\<rparr>) (players g)\<rparr>"
  have al: "filter isAlive (players ?g1) = f # fs"
    using d rest by (simp add: alive_after_kill)
  have "\<forall>a\<in>set (f # fs). \<not> Some (userId a) = captain ?g1"
  proof
    fix a assume "a \<in> set (f # fs)"
    then have "a \<in> set (filter (\<lambda>p. isAlive p \<and> userId p \<noteq> u) (players g))"
      using rest by simp
    then have "userId a \<noteq> u" by simp
    then show "\<not> Some (userId a) = captain ?g1" using cap by simp
  qed
  then have "findIndex (\<lambda>p. Some (userId p) = captain ?g1) (f # fs) = -1"
    by (simp only: findIndex_none)
  then have "rotateCaptain ?g1 = Inr (?g1\<lparr>captain := Some (userId f)\<rparr>)"
    using al by (simp add: rotateCaptain_def Let_def del: findIndex.simps)
  then show ?thesis using pl cap by (simp add: eliminatePlayer_def Let_def)
qed


text \<open>
  C10. \<^verbatim>\<open>rotateCaptain\<close> throws exactly when no player is alive (the next index is a
  remainder by zero and the array read fails); with a living player it returns and the
  new captain is one of the living. So \<^verbatim>\<open>eliminatePlayer\<close> on the last living player,
  when that player is the captain, throws instead of leaving a captain (ids being
  unique, as the keys of the player map are); while any other player is still alive it
  returns, and a captaincy it reassigns goes to a living player.
\<close>

theorem C10_rotateCaptain_needs_alive_player:
  "(rotateCaptain g = Inl TypeError \<longleftrightarrow> getAlivePlayers g = [])
   \<and> (getAlivePlayers g \<noteq> [] \<longrightarrow>
        (\<exists>p\<in>set (getAlivePlayers g). rotateCaptain g = Inr (g\<lparr>captain := Some (userId p)\<rparr>)))
   \<and> (distinct (map userId (players g)) \<and> getPlayer g u \<noteq> None \<and> captain g = Some u
        \<and> (\<forall>p\<in>set (players g). isAlive p \<longrightarrow> userId p = u)
        \<longrightarrow> eliminatePlayer u g = Inl TypeError)
   \<and> ((\<exists>p\<in>set (players g). isAlive p \<and> userId p \<noteq> u) \<longrightarrow>
        (\<exists>g'. eliminatePlayer u g = Inr g'
           \<and> (captain g = Some u \<and> getPlayer g u \<noteq> None \<longrightarrow>
                (\<exists>p\<in>set (getAlivePlayers g'). captain g' = Some (userId p)))))"
proof (intro conjI impI)
  show "rotateCaptain g = Inl TypeError \<longleftrightarrow> getAlivePlayers g = []"
    by (simp add: rotateCaptain_error)
next
  assume "getAlivePlayers g \<noteq> []"
  then show "\<exists>p\<in>set (getAlivePlayers g). rotateCaptain g = Inr (g\<lparr>captain := Some (userId p)\<rparr>)"
    by (rule rotateCaptain_ok)
next
  assume a: "distinct (map userId (players g)) \<and> getPlayer g u \<noteq> None \<and> captain g = Some u
        \<and> (\<forall>p\<in>set (players g). isAlive p \<longrightarrow> userId p = u)"
  let ?g1 = "g\<lparr>players := updatePlayer u (\<lambda>p. p\<lparr>isAlive := False\<rparr>) (players g)\<rparr>"
  from a have "filter (\<lambda>p. isAlive p \<and> userId p \<noteq> u) (players g) = []"
    by (auto simp: filter_empty_conv)
  with a have "getAlivePlayers ?g1 = []" by (simp add: alive_after_kill)
  then have "rotateCaptain ?g1 = Inl TypeError" by (simp add: rotateCaptain_error)
  with a show "eliminatePlayer u g = Inl TypeError"
    by (auto simp: eliminatePlayer_def Let_def)
next
  assume "\<exists>p\<in>set (players g). isAlive p \<and> userId p \<noteq> u"
  then obtain p where p: "p \<in> set (players g)" "isAlive p" "userId p \<noteq> u" by blast
  let ?g1 = "g\<lparr>players := updatePlayer u (\<lambda>p. p\<lparr>isAlive := False\<rparr>) (players g)\<rparr>"
  from p have "p \<in> set (getAlivePlayers ?g1)" by (simp add: updatePlayer_other)
  then have ne: "getAlivePlayers ?g1 \<noteq> []" by (metis empty_iff empty_set)
  from rotateCaptain_ok [OF ne] obtain q where
    q: "q \<in> set (getAlivePlayers ?g1)" "rotateCaptain ?g1 = Inr (?g1\<lparr>captain := Some (userId q)\<rparr>)"
    by blast
  show "\<exists>g'. eliminatePlayer u g = Inr g'
           \<and> (captain g = Some u \<and> getPlayer g u \<noteq> None \<longrightarrow>
                (\<exists>p\<in>set (getAlivePlayers g'). captain g' = Some (userId p)))"
  proof (cases "getPlayer g u")
    case None
    then show ?thesis by (simp add: eliminatePlayer_def)
  next
    case (Some c)
    show ?thesis
    proof (cases "captain g = Some u")
      case True
      with Some q have "eliminatePlayer u g = Inr (?g1\<lparr>captain := Some (userId q)\<rparr>)"
        by (simp add: eliminatePlayer_def Let_def)
      moreover have "\<exists>p\<in>set (getAlivePlayers (?g1\<lparr>captain := Some (userId q)\<rparr>)).
                        captain (?g1\<lparr>captain := Some (userId q)\<rparr>) = Some (userId p)"
        using q(1) by auto
      ultimately show ?thesis by blast
    next
      case False
      with Some show ?thesis by (simp add: eliminatePlayer_def Let_def)
    qed
  qed
qed

theorem C10_rotateCaptain_needs_alive_player_witness:
  "eliminatePlayer ''A'' ((crewOf [''A''])\<lparr>captain := Some ''A''\<rparr>) = Inl TypeError
   \<and> rotateCaptain (crewOf []) = Inl TypeError
   \<and> (\<exists>g'. eliminatePlayer ''A'' ((crewOf [''A'', ''B''])\<lparr>captain := Some ''A''\<rparr>) = Inr g'
          \<and> captain g' = Some ''B'')"
proof -
  have 1: "eliminatePlayer ''A'' ((crewOf [''A''])\<lparr>captain := Some ''A''\<rparr>) = Inl TypeError"
    using C10_rotateCaptain_needs_alive_player
            [of "(crewOf [''A''])\<lparr>captain := Some ''A''\<rparr>" "''A''"]
    by (simp add: crewOf_def joined_def newGameState_def getPlayer_def)
  have 2: "rotateCaptain (crewOf []) = Inl TypeError"
    using C10_rotateCaptain_needs_alive_player [of "crewOf []" "''A''"]
    by (simp add: crewOf_def newGameState_def)
  have 3: "\<exists>g'. eliminatePlayer ''A'' ((crewOf [''A'', ''B''])\<lparr>captain := Some ''A''\<rparr>) = Inr g'
          \<and> captain g' = Some ''B''"
    by (simp add: eliminatePlayer_def getPlayer_def crewOf_def joined_def newGameState_def
          rotateCaptain_def Let_def)
  from 1 2 3 show ?thesis by blast
qed

text \<open>
  C3, at a crew of five (A, B, C, D, E in join order) whose captain is C.
  \<^verbatim>\<open>rotateCaptain\<close> with the captain alive moves the captaincy to D, the next living
  player in join order. \<^verbatim>\<open>eliminatePlayer\<close> of C clears C's liveness flag before it
  rotates, so the search for the captain among the living finds nothing (index \<open>-1\<close>)
  and the captaincy goes to A, the first living player, and not to D, the next living
  player after C. Liveness and guns of the others are untouched.
\<close>

theorem C3_eliminatePlayer_captain_restarts_at_first:
  "map_sum id captain
     (rotateCaptain ((crewOf [''A'', ''B'', ''C'', ''D'', ''E''])\<lparr>captain := Some ''C''\<rparr>))
     = Inr (Some ''D'')
   \<and> map_sum id captain
     (eliminatePlayer ''C'' ((crewOf [''A'', ''B'', ''C'', ''D'', ''E''])\<lparr>captain := Some ''C''\<rparr>))
     = Inr (Some ''A'')
   \<and> map_sum id (\<lambda>g. map (\<lambda>p. (userId p, isAlive p, guns p)) (players g))
     (eliminatePlayer ''C'' ((crewOf [''A'', ''B'', ''C'', ''D'', ''E''])\<lparr>captain := Some ''C''\<rparr>))
     = Inr [(''A'', True, 3), (''B'', True, 3), (''C'', False, 3), (''D'', True, 3), (''E'', True, 3)]"
  by (simp add: eliminatePlayer_def getPlayer_def crewOf_def joined_def newGameState_def
        rotateCaptain_def Let_def)

subsection \<open>What the phase handlers leave alone\<close>

lemma post_fields [simp]:
  "game (post r m tm) = game tm"
  "client (post r m tm) = client tm @ [(r, m)]"
  "mutinyVotes (post r m tm) = mutinyVotes tm"
  "mutinyEligibleVoters (post r m tm) = mutinyEligibleVoters tm"
  "selectedLieutenant (post r m tm) = selectedLieutenant tm"
  "selectedNavigator (post r m tm) = selectedNavigator tm"
  "mutinyTimeoutId (post r m tm) = mutinyTimeoutId tm"
  "captainNavigationChoice (post r m tm) = captainNavigationChoice tm"
  "lieutenantNavigationChoice (post r m tm) = lieutenantNavigationChoice tm"
  "captainChoiceLocked (post r m tm) = captainChoiceLocked tm"
  "lieutenantChoiceLocked (post r m tm) = lieutenantChoiceLocked tm"
  "navigatorChoiceLocked (post r m tm) = navigatorChoiceLocked tm"
  "lastMutinySucceeded (post r m tm) = lastMutinySucceeded tm"
  by (simp_all add: post_def)

lemma game_navigationSelectionPhase [simp]: "game (navigationSelectionPhase tm) = game tm"
  by (simp add: navigationSelectionPhase_def Let_def)

lemma game_mutinyPhase [simp]: "game (mutinyPhase tm) = game tm"
  by (simp add: mutinyPhase_def Let_def)

lemma game_navigationPhase [simp]: "game (navigationPhase ch tm) = game tm"
  by (simp add: navigationPhase_def sendNavigationChoiceCards_def Let_def)

lemma game_votingPhase [simp]: "game (votingPhase tm) = game tm"
  by (simp add: votingPhase_def)

lemma game_executePhase [simp]: "game (executePhase ch tm) = game tm"
  by (simp add: executePhase_def split: GamePhase.split)

lemma lastMutinySucceeded_executePhase [simp]:
  "lastMutinySucceeded (executePhase ch tm) = lastMutinySucceeded tm"
  by (simp add: executePhase_def navigationSelectionPhase_def mutinyPhase_def
        navigationPhase_def sendNavigationChoiceCards_def votingPhase_def Let_def
      split: GamePhase.split)

lemma nextPhase_from_voting:
  assumes "currentPhase g = VOTING"
  shows "nextPhase g = rotateCaptain (g\<lparr>currentTurn := currentTurn g + 1,
                                          currentPhase := NAVIGATION_SELECTION\<rparr>)"
  using assms by (simp add: nextPhase_def indexOf_def Let_def)

lemma rotateCaptain_frame:
  assumes "rotateCaptain g = Inr g'"
  shows "\<exists>c. g' = g\<lparr>captain := c\<rparr>"
  using assms by (auto simp: rotateCaptain_def Let_def split: if_splits)

text \<open>
  C9. \<^verbatim>\<open>startTurn\<close> out of VOTING: it returns whenever a player is alive (the captain
  rotation inside \<^verbatim>\<open>nextPhase\<close> needs one), and whenever it returns the turn counter
  is one higher and the lieutenant and navigator fields are as before. With both
  fields holding an identity (non-null; an identity is a non-empty string, which is
  what the truthiness test of the source asks) the resulting phase is MUTINY, the
  selection phase being skipped; with either field null it is NAVIGATION_SELECTION.
\<close>

theorem C9_startTurn_after_voting:
  assumes "currentPhase (game tm) = VOTING"
  shows "(getAlivePlayers (game tm) \<noteq> [] \<longrightarrow> (\<exists>tm'. startTurn ch tm = Inr tm'))
    \<and> (\<forall>tm'. startTurn ch tm = Inr tm' \<longrightarrow>
          currentTurn (game tm') = currentTurn (game tm) + 1
        \<and> lieutenant (game tm') = lieutenant (game tm)
        \<and> navigator (game tm') = navigator (game tm)
        \<and> ((\<exists>l n. lieutenant (game tm) = Some l \<and> l \<noteq> [] \<and> navigator (game tm) = Some n \<and> n \<noteq> [])
              \<longrightarrow> currentPhase (game tm') = MUTINY)
        \<and> (lieutenant (game tm) = None \<or> navigator (game tm) = None
              \<longrightarrow> currentPhase (game tm') = NAVIGATION_SELECTION))"
proof (intro conjI impI allI)
  let ?g = "(game tm)\<lparr>currentTurn := currentTurn (game tm) + 1, currentPhase := NAVIGATION_SELECTION\<rparr>"
  have np: "nextPhase (game tm) = rotateCaptain ?g"
    using assms by (rule nextPhase_from_voting)
  {
    assume "getAlivePlayers (game tm) \<noteq> []"
    then have "getAlivePlayers ?g \<noteq> []" by simp
    from rotateCaptain_ok [OF this] obtain g1 where "rotateCaptain ?g = Inr g1" by blast
    with np show "\<exists>tm'. startTurn ch tm = Inr tm'" by (simp add: startTurn_def Let_def)
  }
  fix tm' assume st: "startTurn ch tm = Inr tm'"
  then obtain g1 where g1: "rotateCaptain ?g = Inr g1"
    using np by (auto simp: startTurn_def Let_def split: sum.splits)
  then obtain c where c: "g1 = ?g\<lparr>captain := c\<rparr>" using rotateCaptain_frame by blast
  have tm': "tm' = executePhase ch (tm\<lparr>game :=
      (if truthy (lieutenant g1) \<and> truthy (navigator g1) then g1\<lparr>currentPhase := MUTINY\<rparr> else g1)\<rparr>)"
    using st np g1 assms c by (auto simp: startTurn_def Let_def)
  show "currentTurn (game tm') = currentTurn (game tm) + 1" using tm' c by simp
  show "lieutenant (game tm') = lieutenant (game tm)" using tm' c by simp
  show "navigator (game tm') = navigator (game tm)" using tm' c by simp
  {
    assume "\<exists>l n. lieutenant (game tm) = Some l \<and> l \<noteq> [] \<and> navigator (game tm) = Some n \<and> n \<noteq> []"
    then show "currentPhase (game tm') = MUTINY" using tm' c by auto
  }
  {
    assume "lieutenant (game tm) = None \<or> navigator (game tm) = None"
    then show "currentPhase (game tm') = NAVIGATION_SELECTION" using tm' c by auto
  }
qed

theorem C9_startTurn_after_voting_witness:
  "(\<exists>tm'. startTurn calm votingEnded = Inr tm' \<and> currentPhase (game tm') = MUTINY
       \<and> lieutenant (game tm') = Some ''B'' \<and> navigator (game tm') = Some ''C''
       \<and> currentTurn (game tm') = 2)
   \<and> (\<exists>tm'. startTurn calm (votingEnded\<lparr>game := (game votingEnded)\<lparr>navigator := None\<rparr>\<rparr>) = Inr tm'
       \<and> currentPhase (game tm') = NAVIGATION_SELECTION \<and> currentTurn (game tm') = 2)"
proof -
  have v: "currentPhase (game votingEnded) = VOTING"
    by (simp add: votingEnded_def newTurnManager_def crewOf_def newGameState_def)
  have a: "getAlivePlayers (game votingEnded) \<noteq> []"
    by (simp add: votingEnded_def newTurnManager_def crewOf_def newGameState_def joined_def)
  have f: "lieutenant (game votingEnded) = Some ''B''" "navigator (game votingEnded) = Some ''C''"
    "currentTurn (game votingEnded) = 1"
    by (simp_all add: votingEnded_def newTurnManager_def crewOf_def newGameState_def)
  let ?tm2 = "votingEnded\<lparr>game := (game votingEnded)\<lparr>navigator := None\<rparr>\<rparr>"
  have v2: "currentPhase (game ?tm2) = VOTING" using v by simp
  have a2: "getAlivePlayers (game ?tm2) \<noteq> []" using a by simp
  from C9_startTurn_after_voting [OF v, of calm] a f
  have 1: "\<exists>tm'. startTurn calm votingEnded = Inr tm' \<and> currentPhase (game tm') = MUTINY
       \<and> lieutenant (game tm') = Some ''B'' \<and> navigator (game tm') = Some ''C''
       \<and> currentTurn (game tm') = 2"
    by auto
  from C9_startTurn_after_voting [OF v2, of calm] a2 f
  have 2: "\<exists>tm'. startTurn calm ?tm2 = Inr tm'
       \<and> currentPhase (game tm') = NAVIGATION_SELECTION \<and> currentTurn (game tm') = 2"
    by auto
  from 1 2 show ?thesis by blast
qed

subsection \<open>Resolving a mutiny\<close>

lemma fold_tally: "fold (\<lambda>(u, n) total. total + n) votes a = a + sum_list (map snd votes)"
  for a :: int
  by (induction votes arbitrary: a) (auto simp: case_prod_beta)

lemma foldl_reduce: "foldl (\<lambda>total n. total + n) a ns = a + sum_list ns" for a :: int
  by (induction ns arbitrary: a) auto

lemma resolveMutiny_succeeded:
  "lastMutinySucceeded (resolveMutiny ch tm) = spec_mutinySucceeds tm"
  by (simp add: resolveMutiny_def Let_def fold_tally foldl_reduce spec_mutinySucceeds_def
        spec_totalGunsUsed_def spec_totalCrewGuns_def)

lemma resolveMutiny_game:
  "game (resolveMutiny ch tm) =
     (if spec_mutinySucceeds tm
      then (electCaptainByGuns (electDraw ch) (game tm))\<lparr>currentPhase := NAVIGATION_SELECTION\<rparr>
      else (game tm)\<lparr>currentPhase := NAVIGATION\<rparr>)"
  by (simp add: resolveMutiny_def Let_def fold_tally foldl_reduce spec_mutinySucceeds_def
        spec_totalGunsUsed_def spec_totalCrewGuns_def)

text \<open>
  C1. \<^verbatim>\<open>resolveMutiny\<close> declares the mutiny successful (the flag it records, and the
  phase it moves to) exactly when the sum of the recorded submissions is at least
  \<open>floor(totalCrewGuns / 2) + 1\<close>, the crew's guns being the sum of the eligible
  voters' current gun counts. With nine crew guns the threshold is five: five guns
  used succeed, four fail.
\<close>

theorem C1_mutiny_threshold:
  "lastMutinySucceeded (resolveMutiny ch tm)
     = (spec_totalGunsUsed tm \<ge> spec_totalCrewGuns tm div 2 + 1)
   \<and> (currentPhase (game (resolveMutiny ch tm)) = NAVIGATION_SELECTION)
     = (spec_totalGunsUsed tm \<ge> spec_totalCrewGuns tm div 2 + 1)
   \<and> (spec_totalCrewGuns tm = 9 \<longrightarrow>
        lastMutinySucceeded (resolveMutiny ch tm) = (spec_totalGunsUsed tm \<ge> 5))"
proof -
  have "lastMutinySucceeded (resolveMutiny ch tm)
     = (spec_totalGunsUsed tm \<ge> spec_totalCrewGuns tm div 2 + 1)"
    by (simp add: resolveMutiny_succeeded spec_mutinySucceeds_def)
  moreover have "(currentPhase (game (resolveMutiny ch tm)) = NAVIGATION_SELECTION)
     = (spec_totalGunsUsed tm \<ge> spec_totalCrewGuns tm div 2 + 1)"
    by (simp add: resolveMutiny_game spec_mutinySucceeds_def)
  ultimately show ?thesis by simp
qed

lemma mutinyRound_crewGuns: "spec_totalCrewGuns (mutinyRound votes) = 9"
  by (simp add: spec_totalCrewGuns_def mutinyRound_def newTurnManager_def crewOf_def
        newGameState_def joined_def getPlayer_def)

theorem C1_mutiny_threshold_witness:
  "spec_totalCrewGuns (mutinyRound [(''B'', 3), (''C'', 2)]) = 9
   \<and> spec_totalGunsUsed (mutinyRound [(''B'', 3), (''C'', 2)]) = 5
   \<and> lastMutinySucceeded (resolveMutiny calm (mutinyRound [(''B'', 3), (''C'', 2)]))
   \<and> spec_totalGunsUsed (mutinyRound [(''B'', 2), (''C'', 2)]) = 4
   \<and> \<not> lastMutinySucceeded (resolveMutiny calm (mutinyRound [(''B'', 2), (''C'', 2)]))"
proof -
  have u1: "spec_totalGunsUsed (mutinyRound [(''B'', 3), (''C'', 2)]) = 5"
    by (simp add: spec_totalGunsUsed_def mutinyRound_def)
  have u2: "spec_totalGunsUsed (mutinyRound [(''B'', 2), (''C'', 2)]) = 4"
    by (simp add: spec_totalGunsUsed_def mutinyRound_def)
  show ?thesis
    using C1_mutiny_threshold [of calm "mutinyRound [(''B'', 3), (''C'', 2)]"]
          C1_mutiny_threshold [of calm "mutinyRound [(''B'', 2), (''C'', 2)]"]
          mutinyRound_crewGuns u1 u2
    by simp
qed

lemma fold_max_Max:
  "xs \<noteq> [] \<Longrightarrow> fold max (map f xs) (f (hd xs)) = Max (f ` set xs)"
  for f :: "'a \<Rightarrow> int"
proof (cases xs)
  case Nil
  then show "xs \<noteq> [] \<Longrightarrow> ?thesis" by simp
next
  case (Cons a as)
  have "Max (set (f a # map f as)) = fold max (map f as) (f a)"
    by (rule Max.set_eq_fold)
  then show ?thesis using Cons by simp
qed

lemma crew_alive: "filter (\<lambda>p. Some (userId p) \<noteq> captain g) (getAlivePlayers g) = crew g"
  by (simp add: crew_def conj_commute)

lemma topGuns_Max:
  assumes "crew g \<noteq> []"
  shows "filter (\<lambda>p. guns p = Max (guns ` set (crew g))) (crew g) = topGuns g"
proof -
  have "\<And>p. p \<in> set (crew g) \<Longrightarrow>
          (guns p = Max (guns ` set (crew g))) = list_all (\<lambda>q. guns q \<le> guns p) (crew g)"
  proof -
    fix p assume p: "p \<in> set (crew g)"
    have fin: "finite (guns ` set (crew g))" by simp
    have ne: "guns ` set (crew g) \<noteq> {}" using assms by simp
    have "(guns p = Max (guns ` set (crew g))) = (\<forall>a\<in>guns ` set (crew g). a \<le> guns p)"
      using p fin ne by (metis Max_eqI Max_ge imageI)
    then show "(guns p = Max (guns ` set (crew g))) = list_all (\<lambda>q. guns q \<le> guns p) (crew g)"
      by (simp add: list_all_iff)
  qed
  then show ?thesis unfolding topGuns_def by (metis (mono_tags, lifting) filter_cong)
qed

lemma topGuns_nonempty: "crew g \<noteq> [] \<Longrightarrow> topGuns g \<noteq> []"
proof -
  assume ne: "crew g \<noteq> []"
  then have "Max (guns ` set (crew g)) \<in> guns ` set (crew g)"
    by (intro Max_in) simp_all
  then obtain p where "p \<in> set (crew g)" "guns p = Max (guns ` set (crew g))" by auto
  then have "p \<in> set (filter (\<lambda>p. guns p = Max (guns ` set (crew g))) (crew g))" by simp
  then show ?thesis using topGuns_Max [OF ne] by (metis empty_iff empty_set)
qed

lemma electCaptainByGuns_spec:
  assumes "crew g \<noteq> []"
  shows "electCaptainByGuns r g =
           g\<lparr>captain := Some (userId (topGuns g ! (r mod length (topGuns g))))\<rparr>"
  using assms
  by (simp add: electCaptainByGuns_def Let_def crew_alive fold_max_Max topGuns_Max
           del: getAlivePlayers_filter)

lemma topGuns_members:
  "c \<in> set (topGuns g) \<Longrightarrow>
     c \<in> set (players g) \<and> isAlive c \<and> Some (userId c) \<noteq> captain g
     \<and> (\<forall>q\<in>set (players g). isAlive q \<and> Some (userId q) \<noteq> captain g \<longrightarrow> guns q \<le> guns c)"
  by (auto simp: topGuns_def crew_def list_all_iff)

text \<open>
  C2. When the mutiny succeeds the phase becomes NAVIGATION_SELECTION and, the crew
  (alive, not the previous captain) being non-empty, the captain is replaced by a crew
  member whom no crew member outguns: the one the random index picks among all of
  them, so that each index below their number elects a different one of them and the
  previous captain is never re-elected. When the mutiny fails the captain stays and
  the phase becomes NAVIGATION.
\<close>

theorem C2_resolveMutiny_outcome:
  "(spec_totalGunsUsed tm \<ge> spec_totalCrewGuns tm div 2 + 1 \<longrightarrow>
       currentPhase (game (resolveMutiny ch tm)) = NAVIGATION_SELECTION
     \<and> (crew (game tm) \<noteq> [] \<longrightarrow>
          topGuns (game tm) \<noteq> []
        \<and> captain (game (resolveMutiny ch tm))
            = Some (userId (topGuns (game tm) ! (electDraw ch mod length (topGuns (game tm)))))
        \<and> captain (game (resolveMutiny ch tm)) \<noteq> captain (game tm)
        \<and> (\<forall>c\<in>set (topGuns (game tm)).
              c \<in> set (players (game tm)) \<and> isAlive c \<and> Some (userId c) \<noteq> captain (game tm)
            \<and> (\<forall>q\<in>set (players (game tm)).
                  isAlive q \<and> Some (userId q) \<noteq> captain (game tm) \<longrightarrow> guns q \<le> guns c))
        \<and> (\<forall>i<length (topGuns (game tm)).
              captain (game (resolveMutiny (ch\<lparr>electDraw := i\<rparr>) tm))
                = Some (userId (topGuns (game tm) ! i)))))
   \<and> (\<not> spec_totalGunsUsed tm \<ge> spec_totalCrewGuns tm div 2 + 1 \<longrightarrow>
         captain (game (resolveMutiny ch tm)) = captain (game tm)
       \<and> currentPhase (game (resolveMutiny ch tm)) = NAVIGATION)"
proof (intro conjI impI)
  assume s: "spec_totalGunsUsed tm \<ge> spec_totalCrewGuns tm div 2 + 1"
  then have g: "\<And>ch. game (resolveMutiny ch tm)
      = (electCaptainByGuns (electDraw ch) (game tm))\<lparr>currentPhase := NAVIGATION_SELECTION\<rparr>"
    by (simp add: resolveMutiny_game spec_mutinySucceeds_def)
  show "currentPhase (game (resolveMutiny ch tm)) = NAVIGATION_SELECTION"
    by (simp add: g)
  assume ne: "crew (game tm) \<noteq> []"
  show tne: "topGuns (game tm) \<noteq> []" using ne by (rule topGuns_nonempty)
  show cap: "captain (game (resolveMutiny ch tm))
      = Some (userId (topGuns (game tm) ! (electDraw ch mod length (topGuns (game tm)))))"
    by (simp add: g electCaptainByGuns_spec [OF ne])
  have "topGuns (game tm) ! (electDraw ch mod length (topGuns (game tm))) \<in> set (topGuns (game tm))"
    using tne by simp
  then have "Some (userId (topGuns (game tm) ! (electDraw ch mod length (topGuns (game tm)))))
               \<noteq> captain (game tm)"
    using topGuns_members by blast
  then show "captain (game (resolveMutiny ch tm)) \<noteq> captain (game tm)"
    using cap by simp
  show "\<forall>c\<in>set (topGuns (game tm)).
              c \<in> set (players (game tm)) \<and> isAlive c \<and> Some (userId c) \<noteq> captain (game tm)
            \<and> (\<forall>q\<in>set (players (game tm)).
                  isAlive q \<and> Some (userId q) \<noteq> captain (game tm) \<longrightarrow> guns q \<le> guns c)"
    using topGuns_members by blast
  show "\<forall>i<length (topGuns (game tm)).
              captain (game (resolveMutiny (ch\<lparr>electDraw := i\<rparr>) tm))
                = Some (userId (topGuns (game tm) ! i))"
    by (simp add: g electCaptainByGuns_spec [OF ne])
next
  assume f: "\<not> spec_totalGunsUsed tm \<ge> spec_totalCrewGuns tm div 2 + 1"
  then have g: "game (resolveMutiny ch tm) = (game tm)\<lparr>currentPhase := NAVIGATION\<rparr>"
    by (simp add: resolveMutiny_game spec_mutinySucceeds_def)
  show "captain (game (resolveMutiny ch tm)) = captain (game tm)" by (simp add: g)
  show "currentPhase (game (resolveMutiny ch tm)) = NAVIGATION" by (simp add: g)
qed

lemma mutinyRound_topGuns:
  "topGuns (game (mutinyRound votes)) = [joined ''B'', joined ''C'', joined ''D'']"
  by (simp add: topGuns_def crew_def mutinyRound_def newTurnManager_def crewOf_def
        newGameState_def joined_def)

lemma mutinyRound_crew: "crew (game (mutinyRound votes)) \<noteq> []"
  by (simp add: crew_def mutinyRound_def newTurnManager_def crewOf_def
        newGameState_def joined_def)

theorem C2_resolveMutiny_outcome_witness:
  "captain (game (resolveMutiny (calm\<lparr>electDraw := 1\<rparr>) (mutinyRound [(''B'', 3), (''C'', 2)])))
     = Some ''C''
   \<and> currentPhase (game (resolveMutiny (calm\<lparr>electDraw := 1\<rparr>) (mutinyRound [(''B'', 3), (''C'', 2)])))
     = NAVIGATION_SELECTION
   \<and> captain (game (resolveMutiny calm (mutinyRound [(''B'', 2), (''C'', 2)]))) = Some ''A''
   \<and> currentPhase (game (resolveMutiny calm (mutinyRound [(''B'', 2), (''C'', 2)]))) = NAVIGATION"
proof -
  have u1: "spec_totalGunsUsed (mutinyRound [(''B'', 3), (''C'', 2)]) = 5"
    by (simp add: spec_totalGunsUsed_def mutinyRound_def)
  have u2: "spec_totalGunsUsed (mutinyRound [(''B'', 2), (''C'', 2)]) = 4"
    by (simp add: spec_totalGunsUsed_def mutinyRound_def)
  have c: "captain (game (mutinyRound [(''B'', 2), (''C'', 2)])) = Some ''A''"
    by (simp add: mutinyRound_def newTurnManager_def crewOf_def newGameState_def)
  have j: "userId (joined ''C'') = ''C''" by (simp add: joined_def)
  show ?thesis
    using C2_resolveMutiny_outcome [of "mutinyRound [(''B'', 3), (''C'', 2)]" "calm\<lparr>electDraw := 1\<rparr>"]
          C2_resolveMutiny_outcome [of "mutinyRound [(''B'', 2), (''C'', 2)]" calm]
          mutinyRound_crewGuns u1 u2 c j mutinyRound_crew mutinyRound_topGuns
    by simp
qed

subsection \<open>Navigation: cards, locks and the commit\<close>

lemma shuffled_cards:
  assumes "mset shuffled = mset allDirections"
  shows "length (take 2 shuffled) = 2"
    and "distinct (map vector (take 2 shuffled))"
    and "set (map vector (take 2 shuffled)) \<subseteq> set cardinal"
proof -
  have "size (mset shuffled) = size (mset allDirections)" using assms by simp
  then have len: "length shuffled = 4" by (simp add: allDirections_def)
  then show "length (take 2 shuffled) = 2" by simp
  have "mset (map vector shuffled) = mset (map vector allDirections)"
    using assms by (metis mset_map)
  moreover have "distinct (map vector allDirections)"
    by (simp add: allDirections_def vector_def)
  ultimately have "distinct (map vector shuffled)"
    by (metis mset_eq_imp_distinct_iff)
  then have "distinct (take 2 (map vector shuffled))" by (rule distinct_take)
  then show "distinct (map vector (take 2 shuffled))" by (simp add: take_map)
  have "set shuffled = set allDirections" using assms by (rule mset_eq_setD)
  moreover have "set (take 2 shuffled) \<subseteq> set shuffled" by (rule set_take_subset)
  ultimately have "set (take 2 shuffled) \<subseteq> set allDirections" by simp
  then have "vector ` set (take 2 shuffled) \<subseteq> vector ` set allDirections" by blast
  moreover have "vector ` set allDirections = set cardinal"
    by (simp add: allDirections_def cardinal_def vector_def)
  ultimately show "set (map vector (take 2 shuffled)) \<subseteq> set cardinal" by simp
qed

lemma client_navigationPhase:
  "client (navigationPhase ch tm) = client tm @
     [(Channel, NavigationPhaseOpened),
      (Direct (captain (game tm)), NavigationChoiceCards Captain (take 2 (captainCards ch))),
      (Direct (lieutenant (game tm)), NavigationChoiceCards Lieutenant (take 2 (lieutenantCards ch)))]"
  by (simp add: navigationPhase_def sendNavigationChoiceCards_def Let_def)

lemma post_unchanged: "(post r m tm)\<lparr>client := client tm\<rparr> = tm"
  by (simp add: post_def)

text \<open>
  C5. On entry to the NAVIGATION phase the captain and the lieutenant are each sent two
  cards, two different vectors out of the four cardinal unit vectors (whatever
  permutation of the four the random sort leaves). For each of the three roles, a
  submission by the holder of the role while its lock is clear sets the lock (and, for
  a proposer, records the choice); a submission for a role whose lock is set is
  answered with the already-locked notice and changes nothing else: recorded choices,
  locks, ship position and phase are as before.
\<close>

theorem C5_navigation_cards_and_locks:
  "(mset (captainCards ch) = mset allDirections \<and> mset (lieutenantCards ch) = mset allDirections
      \<longrightarrow> (\<exists>cs ls. client (navigationPhase ch tm) = client tm @
               [(Channel, NavigationPhaseOpened),
                (Direct (captain (game tm)), NavigationChoiceCards Captain cs),
                (Direct (lieutenant (game tm)), NavigationChoiceCards Lieutenant ls)]
             \<and> length cs = 2 \<and> distinct (map vector cs) \<and> set (map vector cs) \<subseteq> set cardinal
             \<and> length ls = 2 \<and> distinct (map vector ls) \<and> set (map vector ls) \<subseteq> set cardinal))
   \<and> (\<not> captainChoiceLocked tm \<and> captain (game tm) = Some u \<longrightarrow>
        (\<exists>tm'. handleAction ch (nav_choice_captain m) u tm = Inr tm'
           \<and> captainChoiceLocked tm' \<and> captainNavigationChoice tm' = Some m))
   \<and> (\<not> lieutenantChoiceLocked tm \<and> lieutenant (game tm) = Some u \<longrightarrow>
        (\<exists>tm'. handleAction ch (nav_choice_lieutenant m) u tm = Inr tm'
           \<and> lieutenantChoiceLocked tm' \<and> lieutenantNavigationChoice tm' = Some m))
   \<and> (\<not> navigatorChoiceLocked tm \<and> navigator (game tm) = Some u \<longrightarrow>
        (\<exists>tm'. handleAction ch (navigate_final m) u tm = Inr tm' \<and> navigatorChoiceLocked tm'))
   \<and> (captainChoiceLocked tm \<longrightarrow>
        (\<exists>tm'. handleAction ch (nav_choice_captain m) u tm = Inr tm'
           \<and> client tm' = client tm @ [(Ephemeral (Some u), AlreadyLocked)]
           \<and> tm'\<lparr>client := client tm\<rparr> = tm))
   \<and> (lieutenantChoiceLocked tm \<longrightarrow>
        (\<exists>tm'. handleAction ch (nav_choice_lieutenant m) u tm = Inr tm'
           \<and> client tm' = client tm @ [(Ephemeral (Some u), AlreadyLocked)]
           \<and> tm'\<lparr>client := client tm\<rparr> = tm))
   \<and> (navigatorChoiceLocked tm \<longrightarrow>
        (\<exists>tm'. handleAction ch (navigate_final m) u tm = Inr tm'
           \<and> client tm' = client tm @ [(Ephemeral (Some u), AlreadyLocked)]
           \<and> tm'\<lparr>client := client tm\<rparr> = tm))"
proof (intro conjI impI)
  assume "mset (captainCards ch) = mset allDirections \<and> mset (lieutenantCards ch) = mset allDirections"
  then show "\<exists>cs ls. client (navigationPhase ch tm) = client tm @
               [(Channel, NavigationPhaseOpened),
                (Direct (captain (game tm)), NavigationChoiceCards Captain cs),
                (Direct (lieutenant (game tm)), NavigationChoiceCards Lieutenant ls)]
             \<and> length cs = 2 \<and> distinct (map vector cs) \<and> set (map vector cs) \<subseteq> set cardinal
             \<and> length ls = 2 \<and> distinct (map vector ls) \<and> set (map vector ls) \<subseteq> set cardinal"
    using client_navigationPhase shuffled_cards by blast
next
  assume "\<not> captainChoiceLocked tm \<and> captain (game tm) = Some u"
  then show "\<exists>tm'. handleAction ch (nav_choice_captain m) u tm = Inr tm'
           \<and> captainChoiceLocked tm' \<and> captainNavigationChoice tm' = Some m"
    by (simp add: Let_def sendNavigatorFinalChoice_def split: option.split)
next
  assume "\<not> lieutenantChoiceLocked tm \<and> lieutenant (game tm) = Some u"
  then show "\<exists>tm'. handleAction ch (nav_choice_lieutenant m) u tm = Inr tm'
           \<and> lieutenantChoiceLocked tm' \<and> lieutenantNavigationChoice tm' = Some m"
    by (simp add: Let_def sendNavigatorFinalChoice_def split: option.split)
next
  assume "\<not> navigatorChoiceLocked tm \<and> navigator (game tm) = Some u"
  then show "\<exists>tm'. handleAction ch (navigate_final m) u tm = Inr tm' \<and> navigatorChoiceLocked tm'"
    by (simp add: Let_def executePhase_def votingPhase_def)
next
  assume "captainChoiceLocked tm"
  then show "\<exists>tm'. handleAction ch (nav_choice_captain m) u tm = Inr tm'
           \<and> client tm' = client tm @ [(Ephemeral (Some u), AlreadyLocked)]
           \<and> tm'\<lparr>client := client tm\<rparr> = tm"
    by (simp add: post_unchanged)
next
  assume "lieutenantChoiceLocked tm"
  then show "\<exists>tm'. handleAction ch (nav_choice_lieutenant m) u tm = Inr tm'
           \<and> client tm' = client tm @ [(Ephemeral (Some u), AlreadyLocked)]
           \<and> tm'\<lparr>client := client tm\<rparr> = tm"
    by (simp add: post_unchanged)
next
  assume "navigatorChoiceLocked tm"
  then show "\<exists>tm'. handleAction ch (navigate_final m) u tm = Inr tm'
           \<and> client tm' = client tm @ [(Ephemeral (Some u), AlreadyLocked)]
           \<and> tm'\<lparr>client := client tm\<rparr> = tm"
    by (simp add: post_unchanged)
qed

lemma bothLocked_fields:
  "captainChoiceLocked bothLocked" "lieutenantChoiceLocked bothLocked"
  "\<not> navigatorChoiceLocked bothLocked"
  "captainNavigationChoice bothLocked = Some \<lparr>dx = 0, dy = 1\<rparr>"
  "lieutenantNavigationChoice bothLocked = Some \<lparr>dx = 0, dy = -1\<rparr>"
  "captain (game bothLocked) = Some ''A''" "lieutenant (game bothLocked) = Some ''B''"
  "navigator (game bothLocked) = Some ''C''"
  "currentPhase (game bothLocked) = NAVIGATION"
  "shipPosition (game bothLocked) = \<lparr>xpos = 0, ypos = 0\<rparr>"
  by (simp_all add: bothLocked_def newTurnManager_def crewOf_def newGameState_def)

lemma calm_cards: "mset (captainCards calm) = mset allDirections"
  "mset (lieutenantCards calm) = mset allDirections"
  by (simp_all add: calm_def)

theorem C5_navigation_cards_and_locks_witness:
  "(\<exists>tm'. handleAction calm (nav_choice_captain \<lparr>dx = 1, dy = 0\<rparr>) ''A'' bothLocked = Inr tm'
       \<and> captainNavigationChoice tm' = Some \<lparr>dx = 0, dy = 1\<rparr>
       \<and> tm'\<lparr>client := client bothLocked\<rparr> = bothLocked)
   \<and> (\<exists>tm'. handleAction calm (nav_choice_captain \<lparr>dx = 1, dy = 0\<rparr>) ''A''
              (navigationPhase calm bothLocked) = Inr tm'
       \<and> captainChoiceLocked tm' \<and> captainNavigationChoice tm' = Some \<lparr>dx = 1, dy = 0\<rparr>)
   \<and> (\<exists>cs ls. client (navigationPhase calm bothLocked) =
          [(Channel, NavigationPhaseOpened),
           (Direct (Some ''A''), NavigationChoiceCards Captain cs),
           (Direct (Some ''B''), NavigationChoiceCards Lieutenant ls)]
        \<and> length cs = 2 \<and> length ls = 2)"
proof -
  have n: "\<not> captainChoiceLocked (navigationPhase calm bothLocked)"
    "captain (game (navigationPhase calm bothLocked)) = Some ''A''"
    by (simp_all add: navigationPhase_def sendNavigationChoiceCards_def Let_def bothLocked_fields)
  have c: "client bothLocked = []"
    by (simp add: bothLocked_def newTurnManager_def)
  have 1: "\<exists>tm'. handleAction calm (nav_choice_captain \<lparr>dx = 1, dy = 0\<rparr>) ''A'' bothLocked = Inr tm'
       \<and> captainNavigationChoice tm' = Some \<lparr>dx = 0, dy = 1\<rparr>
       \<and> tm'\<lparr>client := client bothLocked\<rparr> = bothLocked"
    using C5_navigation_cards_and_locks
            [where ch = calm and tm = bothLocked and u = "''A''" and m = "\<lparr>dx = 1, dy = 0\<rparr>"]
          bothLocked_fields
    by (metis TurnManager.select_convs(8) TurnManager.surjective TurnManager.update_convs(2))
  have 2: "\<exists>tm'. handleAction calm (nav_choice_captain \<lparr>dx = 1, dy = 0\<rparr>) ''A''
              (navigationPhase calm bothLocked) = Inr tm'
       \<and> captainChoiceLocked tm' \<and> captainNavigationChoice tm' = Some \<lparr>dx = 1, dy = 0\<rparr>"
    using C5_navigation_cards_and_locks
            [where ch = calm and tm = "navigationPhase calm bothLocked" and u = "''A''"
               and m = "\<lparr>dx = 1, dy = 0\<rparr>"] n
    by blast
  have 3: "\<exists>cs ls. client (navigationPhase calm bothLocked) =
          [(Channel, NavigationPhaseOpened),
           (Direct (Some ''A''), NavigationChoiceCards Captain cs),
           (Direct (Some ''B''), NavigationChoiceCards Lieutenant ls)]
        \<and> length cs = 2 \<and> length ls = 2"
    using C5_navigation_cards_and_locks
            [where ch = calm and tm = bothLocked and u = "''A''" and m = "\<lparr>dx = 1, dy = 0\<rparr>"]
          calm_cards bothLocked_fields(6,7) c
    by simp blast
  from 1 2 3 show ?thesis by blast
qed

text \<open>
  C4 as stated fails on the commit handler: it applies the vector its action carries
  and never compares it with the proposals. With North and South proposed and locked,
  a commit carrying East moves the ship east.
\<close>

theorem C4_navigator_commit_counterexample:
  "currentPhase (game bothLocked) = NAVIGATION
   \<and> captainChoiceLocked bothLocked \<and> lieutenantChoiceLocked bothLocked
   \<and> captainNavigationChoice bothLocked = Some \<lparr>dx = 0, dy = 1\<rparr>
   \<and> lieutenantNavigationChoice bothLocked = Some \<lparr>dx = 0, dy = -1\<rparr>
   \<and> navigator (game bothLocked) = Some ''C''
   \<and> shipPosition (game bothLocked) = \<lparr>xpos = 0, ypos = 0\<rparr>
   \<and> map_sum id (\<lambda>tm'. (shipPosition (game tm'), currentPhase (game tm')))
        (handleAction calm (navigate_final \<lparr>dx = 1, dy = 0\<rparr>) ''C'' bothLocked)
       = Inr (\<lparr>xpos = 1, ypos = 0\<rparr>, VOTING)"
  by (simp add: bothLocked_fields Let_def moveShip_def)

text \<open>
  C4, amended. When the second proposer locks, exactly the two proposed vectors (the
  captain's, then the lieutenant's) are forwarded to the navigator as the options to
  pick from. On a commit by the navigator while the navigator lock is clear, the ship
  position becomes the previous position plus the vector the commit carries,
  componentwise, the navigator lock is set and the phase advances to VOTING.
\<close>

theorem C4_navigator_commit:
  "(\<not> captainChoiceLocked tm \<and> captain (game tm) = Some u \<and> lieutenantNavigationChoice tm = Some b
      \<longrightarrow> (\<exists>tm'. handleAction ch (nav_choice_captain a) u tm = Inr tm'
             \<and> client tm' = client tm @
                 [(Ephemeral (Some u), ChoiceRecorded a),
                  (Direct (navigator (game tm)), NavigatorFinalChoice [a, b]),
                  (Channel, WaitingForNavigator)]))
   \<and> (\<not> lieutenantChoiceLocked tm \<and> lieutenant (game tm) = Some u \<and> captainNavigationChoice tm = Some a
      \<longrightarrow> (\<exists>tm'. handleAction ch (nav_choice_lieutenant b) u tm = Inr tm'
             \<and> client tm' = client tm @
                 [(Ephemeral (Some u), ChoiceRecorded b),
                  (Direct (navigator (game tm)), NavigatorFinalChoice [a, b]),
                  (Channel, WaitingForNavigator)]))
   \<and> (\<not> navigatorChoiceLocked tm \<and> navigator (game tm) = Some u
      \<longrightarrow> (\<exists>tm'. handleAction ch (navigate_final m) u tm = Inr tm'
             \<and> shipPosition (game tm') =
                 \<lparr>xpos = xpos (shipPosition (game tm)) + dx m,
                  ypos = ypos (shipPosition (game tm)) + dy m\<rparr>
             \<and> currentPhase (game tm') = VOTING
             \<and> navigatorChoiceLocked tm'))"
  by (simp add: Let_def sendNavigatorFinalChoice_def moveShip_def executePhase_def votingPhase_def)

theorem C4_navigator_commit_witness:
  "(\<exists>tm'. handleAction calm (navigate_final \<lparr>dx = 0, dy = 1\<rparr>) ''C'' bothLocked = Inr tm'
       \<and> shipPosition (game tm') = \<lparr>xpos = 0, ypos = 1\<rparr>
       \<and> currentPhase (game tm') = VOTING \<and> navigatorChoiceLocked tm')
   \<and> (\<exists>tm'. handleAction calm (nav_choice_lieutenant \<lparr>dx = 1, dy = 0\<rparr>) ''B''
              (bothLocked\<lparr>lieutenantChoiceLocked := False, lieutenantNavigationChoice := None\<rparr>)
            = Inr tm'
       \<and> client tm' =
            [(Ephemeral (Some ''B''), ChoiceRecorded \<lparr>dx = 1, dy = 0\<rparr>),
             (Direct (Some ''C''), NavigatorFinalChoice [\<lparr>dx = 0, dy = 1\<rparr>, \<lparr>dx = 1, dy = 0\<rparr>]),
             (Channel, WaitingForNavigator)])"
proof -
  have c: "client bothLocked = []"
    by (simp add: bothLocked_def newTurnManager_def)
  have 1: "\<exists>tm'. handleAction calm (navigate_final \<lparr>dx = 0, dy = 1\<rparr>) ''C'' bothLocked = Inr tm'
       \<and> shipPosition (game tm') = \<lparr>xpos = 0, ypos = 1\<rparr>
       \<and> currentPhase (game tm') = VOTING \<and> navigatorChoiceLocked tm'"
    using C4_navigator_commit
            [where tm = bothLocked and u = "''C''" and ch = calm and m = "\<lparr>dx = 0, dy = 1\<rparr>"]
          bothLocked_fields
    by simp
  have 2: "\<exists>tm'. handleAction calm (nav_choice_lieutenant \<lparr>dx = 1, dy = 0\<rparr>) ''B''
              (bothLocked\<lparr>lieutenantChoiceLocked := False, lieutenantNavigationChoice := None\<rparr>)
            = Inr tm'
       \<and> client tm' =
            [(Ephemeral (Some ''B''), ChoiceRecorded \<lparr>dx = 1, dy = 0\<rparr>),
             (Direct (Some ''C''), NavigatorFinalChoice [\<lparr>dx = 0, dy = 1\<rparr>, \<lparr>dx = 1, dy = 0\<rparr>]),
             (Channel, WaitingForNavigator)]"
    using C4_navigator_commit
            [where tm = "bothLocked\<lparr>lieutenantChoiceLocked := False,
                                      lieutenantNavigationChoice := None\<rparr>"
               and u = "''B''" and ch = calm
               and a = "\<lparr>dx = 0, dy = 1\<rparr>" and b = "\<lparr>dx = 1, dy = 0\<rparr>"]
          bothLocked_fields c
    by simp
  from 1 2 show ?thesis by blast
qed

subsection \<open>Mutiny votes\<close>

lemma set_fold_setAdd:
  "set (fold (\<lambda>p s. setAdd (f p) s) ps s0) = f ` set ps \<union> set s0"
  by (induction ps arbitrary: s0) (auto simp: setAdd_def)

lemma distinct_fold_setAdd:
  "distinct s0 \<Longrightarrow> distinct (fold (\<lambda>p s. setAdd (f p) s) ps s0)"
  by (induction ps arbitrary: s0) (auto simp: setAdd_def)

lemma mutinyVotes_resolveMutiny [simp]:
  "mutinyVotes (resolveMutiny ch tm) = mutinyVotes tm"
  by (simp add: resolveMutiny_def Let_def executePhase_def navigationSelectionPhase_def
        navigationPhase_def sendNavigationChoiceCards_def)

lemma mutinyVotes_openMutinyVoteModal [simp]:
  "mutinyVotes (openMutinyVoteModal u tm) = mutinyVotes tm"
  by (simp add: openMutinyVoteModal_def split: option.split)

text \<open>
  C6 as stated fails on \<^verbatim>\<open>handleViewSubmission\<close>, which records what it receives: a
  submission under the captain's id is recorded, and so is a count of seven from a
  voter who holds three guns.
\<close>

theorem C6_mutiny_votes_counterexample:
  "captain (game (mutinyRound [])) = Some ''A''
   \<and> mutinyEligibleVoters (mutinyRound []) = [''B'', ''C'', ''D'']
   \<and> mutinyVotes (handleViewSubmission calm (mutiny_vote_modal 2) ''A'' (mutinyRound []))
       = [(''A'', 2)]
   \<and> map guns (players (game (mutinyRound []))) = [3, 3, 3, 3]
   \<and> mutinyVotes (handleViewSubmission calm (mutiny_vote_modal 7) ''B'' (mutinyRound []))
       = [(''B'', 7)]"
  by (simp add: mutinyRound_def newTurnManager_def crewOf_def newGameState_def joined_def Let_def)

text \<open>
  C6, amended. The eligible voters computed on entry to the MUTINY phase are the alive
  players other than the captain, and the votes start empty. Who may vote is checked
  when the vote modal is requested (\<^verbatim>\<open>cast_mutiny_vote\<close>): the request of the (living)
  captain is answered with the captain-cannot-vote notice, the request of a dead or
  unknown player is dropped, and in both cases no vote is recorded and nothing else
  changes; any other player is shown a modal whose number field is limited to the
  range from 0 to that player's current gun count. \<^verbatim>\<open>handleViewSubmission\<close> records
  the submitted count under the submitting user's id.
\<close>

theorem C6_mutiny_votes:
  "set (mutinyEligibleVoters (mutinyPhase tm))
     = userId ` {p \<in> set (players (game tm)). isAlive p \<and> Some (userId p) \<noteq> captain (game tm)}
   \<and> distinct (mutinyEligibleVoters (mutinyPhase tm))
   \<and> mutinyVotes (mutinyPhase tm) = []
   \<and> handleAction ch cast_mutiny_vote u tm = Inr (openMutinyVoteModal u tm)
   \<and> mutinyVotes (openMutinyVoteModal u tm) = mutinyVotes tm
   \<and> (getPlayer (game tm) u = Some p \<and> isAlive p \<and> Some u = captain (game tm)
        \<longrightarrow> openMutinyVoteModal u tm = post (Ephemeral (Some u)) CaptainCannotVote tm)
   \<and> (getPlayer (game tm) u = None \<or> (getPlayer (game tm) u = Some p \<and> \<not> isAlive p)
        \<longrightarrow> openMutinyVoteModal u tm = tm)
   \<and> (getPlayer (game tm) u = Some p \<and> isAlive p \<and> Some u \<noteq> captain (game tm)
        \<longrightarrow> openMutinyVoteModal u tm = post (Modal u) (MutinyVoteModal 0 (guns p)) tm)
   \<and> mutinyVotes (handleViewSubmission ch (mutiny_vote_modal n) u tm)
       = mapSet u n (mutinyVotes tm)"
proof (intro conjI impI)
  show "set (mutinyEligibleVoters (mutinyPhase tm))
     = userId ` {p \<in> set (players (game tm)). isAlive p \<and> Some (userId p) \<noteq> captain (game tm)}"
    by (auto simp: mutinyPhase_def Let_def set_fold_setAdd)
  show "distinct (mutinyEligibleVoters (mutinyPhase tm))"
    by (simp add: mutinyPhase_def Let_def distinct_fold_setAdd)
  show "mutinyVotes (mutinyPhase tm) = []"
    by (simp add: mutinyPhase_def Let_def)
  show "handleAction ch cast_mutiny_vote u tm = Inr (openMutinyVoteModal u tm)" by simp
  show "mutinyVotes (openMutinyVoteModal u tm) = mutinyVotes tm" by simp
  show "mutinyVotes (handleViewSubmission ch (mutiny_vote_modal n) u tm)
       = mapSet u n (mutinyVotes tm)"
    by (simp add: Let_def)
next
  assume "getPlayer (game tm) u = Some p \<and> isAlive p \<and> Some u = captain (game tm)"
  then show "openMutinyVoteModal u tm = post (Ephemeral (Some u)) CaptainCannotVote tm"
    by (simp add: openMutinyVoteModal_def)
next
  assume "getPlayer (game tm) u = None \<or> (getPlayer (game tm) u = Some p \<and> \<not> isAlive p)"
  then show "openMutinyVoteModal u tm = tm"
    by (auto simp: openMutinyVoteModal_def)
next
  assume "getPlayer (game tm) u = Some p \<and> isAlive p \<and> Some u \<noteq> captain (game tm)"
  then show "openMutinyVoteModal u tm = post (Modal u) (MutinyVoteModal 0 (guns p)) tm"
    by (simp add: openMutinyVoteModal_def)
qed

theorem C6_mutiny_votes_witness:
  "openMutinyVoteModal ''A'' (mutinyRound []) =
     post (Ephemeral (Some ''A'')) CaptainCannotVote (mutinyRound [])
   \<and> openMutinyVoteModal ''Z'' (mutinyRound []) = mutinyRound []
   \<and> openMutinyVoteModal ''B'' (mutinyRound []) =
     post (Modal ''B'') (MutinyVoteModal 0 3) (mutinyRound [])
   \<and> set (mutinyEligibleVoters (mutinyPhase (mutinyRound []))) = {''B'', ''C'', ''D''}"
proof -
  have g: "getPlayer (game (mutinyRound [])) ''A'' = Some (joined ''A'')"
    "getPlayer (game (mutinyRound [])) ''B'' = Some (joined ''B'')"
    "getPlayer (game (mutinyRound [])) ''Z'' = None"
    "captain (game (mutinyRound [])) = Some ''A''"
    by (simp_all add: getPlayer_def mutinyRound_def newTurnManager_def crewOf_def
          newGameState_def joined_def)
  have j: "isAlive (joined ''A'')" "isAlive (joined ''B'')" "guns (joined ''B'') = 3"
    by (simp_all add: joined_def)
  have e: "userId ` {p \<in> set (players (game (mutinyRound []))).
                      isAlive p \<and> Some (userId p) \<noteq> captain (game (mutinyRound []))}
             = {''B'', ''C'', ''D''}"
  proof -
    let ?Q = "\<lambda>p. isAlive p \<and> Some (userId p) \<noteq> captain (game (mutinyRound []))"
    have "{p \<in> set (players (game (mutinyRound []))). ?Q p}
            = set (filter ?Q (players (game (mutinyRound []))))"
      by auto
    moreover have "filter ?Q (players (game (mutinyRound [])))
            = [joined ''B'', joined ''C'', joined ''D'']"
      by (simp add: mutinyRound_def newTurnManager_def crewOf_def newGameState_def joined_def)
    ultimately show ?thesis by (simp add: joined_def)
  qed
  have 1: "openMutinyVoteModal ''A'' (mutinyRound []) =
     post (Ephemeral (Some ''A'')) CaptainCannotVote (mutinyRound [])"
    using C6_mutiny_votes [where tm = "mutinyRound []" and u = "''A''" and p = "joined ''A''"] g j
    by simp
  have 2: "openMutinyVoteModal ''Z'' (mutinyRound []) = mutinyRound []"
    using C6_mutiny_votes [where tm = "mutinyRound []" and u = "''Z''" and p = "joined ''A''"] g
    by simp
  have 3: "openMutinyVoteModal ''B'' (mutinyRound []) =
     post (Modal ''B'') (MutinyVoteModal 0 3) (mutinyRound [])"
    using C6_mutiny_votes [where tm = "mutinyRound []" and u = "''B''" and p = "joined ''B''"] g j
    by simp
  have 4: "set (mutinyEligibleVoters (mutinyPhase (mutinyRound []))) = {''B'', ''C'', ''D''}"
    using C6_mutiny_votes [where tm = "mutinyRound []" and u = "''B''" and p = "joined ''B''"] e
    by simp
  from 1 2 3 4 show ?thesis by blast
qed

subsection \<open>Role assignment\<close>

lemma shuffle_mset: "i < length arr \<Longrightarrow> mset (shuffle rnd i arr) = mset arr"
proof (induction i arbitrary: arr)
  case 0
  then show ?case by simp
next
  case (Suc i)
  let ?j = "rnd (Suc i) mod (Suc i + 1)"
  have "?j < Suc i + 1" by (rule mod_less_divisor) simp
  then have j: "?j < length arr" using Suc.prems by linarith
  have "mset (arr[Suc i := arr ! ?j, ?j := arr ! Suc i]) = mset arr"
    using j Suc.prems by (rule mset_swap)
  moreover have "i < length (arr[Suc i := arr ! ?j, ?j := arr ! Suc i])"
    using Suc.prems by simp
  ultimately show ?case using Suc.IH by (simp add: Let_def)
qed

lemma shuffle_refs:
  "mset (shuffle rnd (n - 1) [0..<n]) = mset [0..<n]"
proof (cases n)
  case 0
  then show ?thesis by simp
next
  case (Suc m)
  then show ?thesis by (simp add: shuffle_mset del: upt_Suc)
qed

lemma stamp_Nil [simp]: "stamp [] ps = ps"
  by (simp add: stamp_def)

lemma stamp_Cons [simp]:
  "stamp (e # xs) ps = stamp xs (ps[fst e := (ps ! fst e)\<lparr>role := Some (snd e)\<rparr>])"
  by (simp add: stamp_def)

lemma stamp_append: "stamp (xs @ ys) ps = stamp ys (stamp xs ps)"
  by (simp add: stamp_def)

lemma stamp_length [simp]: "length (stamp xs ps) = length ps"
  by (induction xs arbitrary: ps) auto

lemma stamp_untouched: "ref \<notin> fst ` set xs \<Longrightarrow> stamp xs ps ! ref = ps ! ref"
  by (induction xs arbitrary: ps) auto

lemma stamp_role:
  "distinct (map fst xs) \<Longrightarrow> (ref, r) \<in> set xs \<Longrightarrow> ref < length ps \<Longrightarrow>
   role (stamp xs ps ! ref) = Some r"
proof (induction xs arbitrary: ps)
  case Nil
  then show ?case by simp
next
  case (Cons e xs)
  show ?case
  proof (cases "e = (ref, r)")
    case True
    with Cons.prems(1) have "ref \<notin> fst ` set xs" by auto
    then show ?thesis using True Cons.prems(3) by (simp add: stamp_untouched)
  next
    case False
    with Cons.prems have "(ref, r) \<in> set xs" "distinct (map fst xs)" by auto
    then show ?thesis using Cons.IH Cons.prems(3) by simp
  qed
qed

lemma stamp_only_roles:
  "map (\<lambda>p. p\<lparr>role := None\<rparr>) (stamp xs ps) = map (\<lambda>p. p\<lparr>role := None\<rparr>) ps"
proof (induction xs arbitrary: ps)
  case Nil
  then show ?case by simp
next
  case (Cons e xs)
  have "map (\<lambda>p. p\<lparr>role := None\<rparr>) (ps[fst e := (ps ! fst e)\<lparr>role := Some (snd e)\<rparr>])
          = map (\<lambda>p. p\<lparr>role := None\<rparr>) ps"
    by (cases "fst e < length ps")
       (simp_all add: map_update list_update_same_conv list_update_beyond)
  with Cons.IH show ?case by simp
qed

lemma stamp_userId: "map userId (stamp xs ps) = map userId ps"
proof -
  have "map userId (map (\<lambda>p. p\<lparr>role := None\<rparr>) (stamp xs ps))
          = map userId (map (\<lambda>p. p\<lparr>role := None\<rparr>) ps)"
    by (simp only: stamp_only_roles)
  then show ?thesis by (simp add: comp_def)
qed

lemma stamp_roles_mset:
  assumes "mset (map fst xs) = mset [0..<length ps]"
  shows "mset (map role (stamp xs ps)) = mset (map (\<lambda>e. Some (snd e)) xs)"
proof -
  let ?ps' = "stamp xs ps"
  have d: "distinct (map fst xs)"
    using assms by (metis distinct_upt mset_eq_imp_distinct_iff)
  have s: "set (map fst xs) = {0..<length ps}"
    using assms by (metis mset_eq_setD set_upt)
  have "map role ?ps' = map (\<lambda>i. role (?ps' ! i)) [0..<length ?ps']"
    by (rule nth_equalityI) simp_all
  then have "mset (map role ?ps') = image_mset (\<lambda>i. role (?ps' ! i)) (mset [0..<length ps])"
    by simp
  also have "\<dots> = image_mset (\<lambda>i. role (?ps' ! i)) (mset (map fst xs))"
    using assms by simp
  also have "\<dots> = mset (map (\<lambda>e. role (?ps' ! fst e)) xs)"
    by (simp add: multiset.map_comp comp_def)
  also have "map (\<lambda>e. role (?ps' ! fst e)) xs = map (\<lambda>e. Some (snd e)) xs"
  proof (rule map_cong [OF refl])
    fix e assume e: "e \<in> set xs"
    then have "fst e \<in> set (map fst xs)" by simp
    then have "fst e < length ps" using s by simp
    moreover have "(fst e, snd e) \<in> set xs" using e by simp
    ultimately show "role (?ps' ! fst e) = Some (snd e)" using d by (simp add: stamp_role)
  qed
  finally show ?thesis .
qed

lemma countRole_stamp:
  assumes "mset (map fst xs) = mset [0..<length (players g)]"
  shows "countRole r (g\<lparr>players := stamp xs (players g), cultLeader := c\<rparr>)
           = length (filter (\<lambda>t. t = r) (map snd xs))"
proof -
  have "countRole r (g\<lparr>players := stamp xs (players g), cultLeader := c\<rparr>)
          = length (filter (\<lambda>y. Some r = y) (map role (stamp xs (players g))))"
    by (simp add: countRole_def filter_map comp_def eq_commute)
  also have "\<dots> = count (mset (map role (stamp xs (players g)))) (Some r)"
    by (simp only: count_mset count_list_eq_length_filter)
  also have "\<dots> = count (mset (map (\<lambda>e. Some (snd e)) xs)) (Some r)"
    using assms by (simp only: stamp_roles_mset)
  also have "\<dots> = length (filter (\<lambda>y. Some r = y) (map (\<lambda>e. Some (snd e)) xs))"
    by (simp only: count_mset count_list_eq_length_filter)
  also have "\<dots> = length (filter (\<lambda>t. t = r) (map snd xs))"
    by (simp add: filter_map comp_def eq_commute)
  finally show ?thesis .
qed

lemma assignRoleLoop_stamp:
  "index + n \<le> length arr \<Longrightarrow>
   assignRoleLoop r n arr index g =
     Inr (index + n,
          g\<lparr>players := stamp (map (\<lambda>ref. (ref, r)) (take n (drop index arr))) (players g)\<rparr>)"
proof (induction n arbitrary: index g)
  case 0
  then show ?case by simp
next
  case (Suc n)
  then have lt: "index < length arr" and le: "(index + 1) + n \<le> length arr" by simp_all
  have d: "drop index arr = arr ! index # drop (Suc index) arr"
    using lt by (simp add: Cons_nth_drop_Suc)
  have "assignRoleLoop r (Suc n) arr index g
          = assignRoleLoop r n arr (index + 1) (setRole (arr ! index) r g)"
    using lt by simp
  also have "\<dots> = Inr (index + 1 + n,
      (setRole (arr ! index) r g)\<lparr>players :=
         stamp (map (\<lambda>ref. (ref, r)) (take n (drop (index + 1) arr)))
           (players (setRole (arr ! index) r g))\<rparr>)"
    using le by (rule Suc.IH)
  finally show ?case by (simp add: d setRole_def)
qed

lemma assignSailors_stamp:
  "assignSailors arr index g =
     g\<lparr>players := stamp (map (\<lambda>ref. (ref, SAILOR)) (drop index arr)) (players g)\<rparr>"
proof (induction arr index g rule: assignSailors.induct)
  case (1 arr index g)
  show ?case
  proof (cases "index < length arr")
    case True
    then have d: "drop index arr = arr ! index # drop (Suc index) arr"
      by (simp add: Cons_nth_drop_Suc)
    have "assignSailors arr index g
            = assignSailors arr (index + 1) (setRole (arr ! index) SAILOR g)"
      using True by (subst assignSailors.simps) simp
    also have "\<dots> = (setRole (arr ! index) SAILOR g)\<lparr>players :=
         stamp (map (\<lambda>ref. (ref, SAILOR)) (drop (index + 1) arr))
           (players (setRole (arr ! index) SAILOR g))\<rparr>"
      using True by (rule "1.IH")
    finally show ?thesis by (simp add: d setRole_def)
  next
    case False
    then show ?thesis by (subst assignSailors.simps) simp
  qed
qed

lemma assignCultLeaders_stamp:
  "0 < length arr \<Longrightarrow>
   assignCultLeaders (Suc 0) arr 0 g =
     Inr (Suc 0, g\<lparr>players := stamp [(arr ! 0, CULT_LEADER)] (players g),
                    cultLeader := Some (userId (players g ! (arr ! 0)))\<rparr>)"
  by (simp add: setRole_def)

lemma take_drop_parts:
  "take a xs @ take b (drop a xs) @ take c (drop (a + b) xs) @ drop (a + b + c) xs = xs"
proof -
  have "take (a + b + c) xs = take a xs @ take b (drop a xs) @ take c (drop (a + b) xs)"
    by (simp add: take_add)
  then show ?thesis by (metis append_take_drop_id append.assoc)
qed

lemma roleRefs_fst: "map fst (roleRefs pc cc arr) = arr"
proof -
  have "map fst (roleRefs pc cc arr)
          = take 1 arr @ take pc (drop 1 arr) @ take cc (drop (1 + pc) arr) @ drop (1 + pc + cc) arr"
    by (simp add: roleRefs_def comp_def)
  then show ?thesis by (simp only: take_drop_parts)
qed

lemma count_const: "length (filter (\<lambda>t. t = r) (map snd (map (\<lambda>ref. (ref, q)) ys)))
                      = (if q = r then length ys else 0)"
  by (cases "q = r") (simp_all add: comp_def)

lemma roleRefs_count:
  assumes "1 + pc + cc \<le> length arr"
  shows "length (filter (\<lambda>t. t = r) (map snd (roleRefs pc cc arr)))
     = (case r of CULT_LEADER \<Rightarrow> 1 | PIRATE \<Rightarrow> pc | CULTIST \<Rightarrow> cc
        | SAILOR \<Rightarrow> length arr - (1 + pc + cc))"
proof -
  have l: "length (take 1 arr) = 1" "length (take pc (drop 1 arr)) = pc"
    "length (take cc (drop (1 + pc) arr)) = cc"
    "length (drop (1 + pc + cc) arr) = length arr - (1 + pc + cc)"
    using assms by simp_all
  have "length (filter (\<lambda>t. t = r) (map snd (roleRefs pc cc arr)))
     = (if CULT_LEADER = r then 1 else 0) + (if PIRATE = r then pc else 0)
       + (if CULTIST = r then cc else 0) + (if SAILOR = r then length arr - (1 + pc + cc) else 0)"
    unfolding roleRefs_def map_append filter_append length_append count_const l by simp
  then show ?thesis by (cases r) simp_all
qed

lemma assignment_loops:
  assumes le: "1 + pc + cc \<le> length arr"
  shows "(case assignCultLeaders (Suc 0) arr 0 g of
            Inl e \<Rightarrow> Inl e
          | Inr (i1, g1) \<Rightarrow>
              (case assignRoleLoop PIRATE pc arr i1 g1 of
                 Inl e \<Rightarrow> Inl e
               | Inr (i2, g2) \<Rightarrow>
                   (case assignRoleLoop CULTIST cc arr i2 g2 of
                      Inl e \<Rightarrow> Inl e
                    | Inr (i3, g3) \<Rightarrow> Inr (assignSailors arr i3 g3))))
         = Inr (g\<lparr>players := stamp (roleRefs pc cc arr) (players g),
                  cultLeader := Some (userId (players g ! (arr ! 0)))\<rparr>)"
proof -
  let ?g1 = "g\<lparr>players := stamp [(arr ! 0, CULT_LEADER)] (players g),
               cultLeader := Some (userId (players g ! (arr ! 0)))\<rparr>"
  let ?g2 = "?g1\<lparr>players := stamp (map (\<lambda>ref. (ref, PIRATE)) (take pc (drop (Suc 0) arr))) (players ?g1)\<rparr>"
  let ?g3 = "?g2\<lparr>players := stamp (map (\<lambda>ref. (ref, CULTIST)) (take cc (drop (Suc 0 + pc) arr))) (players ?g2)\<rparr>"
  from le obtain a as where arr: "arr = a # as" by (cases arr) auto
  have 1: "assignCultLeaders (Suc 0) arr 0 g = Inr (Suc 0, ?g1)"
    using le by (intro assignCultLeaders_stamp) linarith
  have 2: "assignRoleLoop PIRATE pc arr (Suc 0) ?g1 = Inr (Suc 0 + pc, ?g2)"
    using le by (intro assignRoleLoop_stamp) linarith
  have 3: "assignRoleLoop CULTIST cc arr (Suc 0 + pc) ?g2 = Inr (Suc 0 + pc + cc, ?g3)"
    using le by (intro assignRoleLoop_stamp) linarith
  have 4: "assignSailors arr (Suc 0 + pc + cc) ?g3
     = g\<lparr>players := stamp (roleRefs pc cc arr) (players g),
          cultLeader := Some (userId (players g ! (arr ! 0)))\<rparr>"
    by (simp add: assignSailors_stamp roleRefs_def stamp_append arr)
  show ?thesis by (simp only: 1 2 3 4 prod.case sum.case)
qed

lemma assignRoles_stamp:
  assumes rc: "roleCounts (length (players g)) = (pc, Suc 0, cc)"
    and le: "1 + pc + cc \<le> length (players g)"
  shows "assignRoles rnd g =
     Inr (g\<lparr>players := stamp (roleRefs pc cc
                  (shuffle rnd (length (players g) - 1) [0..<length (players g)])) (players g),
            cultLeader := Some (userId (players g !
                  (shuffle rnd (length (players g) - 1) [0..<length (players g)] ! 0)))\<rparr>)"
proof -
  let ?arr = "shuffle rnd (length (players g) - 1) [0..<length (players g)]"
  have "length ?arr = length [0..<length (players g)]"
    using shuffle_refs by (rule mset_eq_length)
  then have "1 + pc + cc \<le> length ?arr" using le by simp
  then show ?thesis
    unfolding assignRoles_def Let_def rc prod.case by (rule assignment_loops)
qed

lemma stamp_all_assigned:
  assumes "mset (map fst xs) = mset [0..<length ps]" and "p \<in> set (stamp xs ps)"
  shows "role p \<noteq> None"
proof -
  have "role p \<in> set (map role (stamp xs ps))" using assms(2) by simp
  also have "set (map role (stamp xs ps)) = set (map (\<lambda>e. Some (snd e)) xs)"
    using stamp_roles_mset [OF assms(1)] by (rule mset_eq_setD)
  finally show ?thesis by auto
qed

lemma roleCounts_table:
  assumes "5 \<le> n" and "n \<le> 12"
  shows "roleCounts n =
     (if n \<le> 7 then 2 else 3, Suc 0, if n \<le> 6 then 0 else if n \<le> 8 then 1 else 2)"
  using assms by (simp add: roleCounts_def)

text \<open>
  C8. For every player count from 5 to 12, whatever the shuffle draws,
  \<^verbatim>\<open>assignRoles\<close> returns; the players are the same in the same order and each holds a
  role; there are 2 pirates up to 7 players and 3 from 8 on, exactly one cult leader,
  no cultist up to 6 players, one for 7 and 8 and two from 9 on; the four role counts
  add up to the player count, so all others are sailors; and the \<^verbatim>\<open>cultLeader\<close> field
  of the session holds the identity of the player with the cult leader's role.
\<close>

theorem C8_assignRoles:
  assumes "5 \<le> length (players g)" and "length (players g) \<le> 12"
  shows "\<exists>g'. assignRoles rnd g = Inr g'
     \<and> map userId (players g') = map userId (players g)
     \<and> (\<forall>p\<in>set (players g'). role p \<noteq> None)
     \<and> countRole PIRATE g' = (if length (players g) \<le> 7 then 2 else 3)
     \<and> countRole CULT_LEADER g' = 1
     \<and> countRole CULTIST g' =
         (if length (players g) \<le> 6 then 0 else if length (players g) \<le> 8 then 1 else 2)
     \<and> countRole SAILOR g' + countRole PIRATE g' + countRole CULT_LEADER g'
         + countRole CULTIST g' = length (players g)
     \<and> (\<exists>i<length (players g'). role (players g' ! i) = Some CULT_LEADER
            \<and> cultLeader g' = Some (userId (players g' ! i)))"
proof -
  let ?n = "length (players g)"
  define pc :: nat where "pc = (if ?n \<le> 7 then 2 else 3)"
  define cc :: nat where "cc = (if ?n \<le> 6 then 0 else if ?n \<le> 8 then 1 else 2)"
  define arr where "arr = shuffle rnd (?n - 1) [0..<?n]"
  define c where "c = Some (userId (players g ! (arr ! 0)))"
  define g' where "g' = g\<lparr>players := stamp (roleRefs pc cc arr) (players g), cultLeader := c\<rparr>"
  have rc: "roleCounts ?n = (pc, Suc 0, cc)"
    using assms by (simp add: roleCounts_table pc_def cc_def)
  have le: "1 + pc + cc \<le> ?n" using assms by (simp add: pc_def cc_def)
  have run: "assignRoles rnd g = Inr g'"
    unfolding g'_def c_def arr_def using rc le by (rule assignRoles_stamp)
  have marr: "mset arr = mset [0..<?n]" unfolding arr_def by (rule shuffle_refs)
  then have larr: "length arr = ?n" using mset_eq_length by fastforce
  have sarr: "set arr = {0..<?n}" using marr by (metis mset_eq_setD set_upt)
  have m: "mset (map fst (roleRefs pc cc arr)) = mset [0..<?n]"
    using marr by (simp only: roleRefs_fst)
  have cnt: "\<And>r. countRole r g' = (case r of CULT_LEADER \<Rightarrow> 1 | PIRATE \<Rightarrow> pc | CULTIST \<Rightarrow> cc
        | SAILOR \<Rightarrow> ?n - (1 + pc + cc))"
    unfolding g'_def using m le larr by (simp only: countRole_stamp roleRefs_count)
  have ids: "map userId (players g') = map userId (players g)"
    by (simp add: g'_def stamp_userId)
  have assigned: "\<forall>p\<in>set (players g'). role p \<noteq> None"
    using stamp_all_assigned [OF m] by (simp add: g'_def)
  have a0: "arr ! 0 < ?n"
  proof -
    have "arr ! 0 \<in> set arr" using larr assms(1) by (intro nth_mem) linarith
    then show ?thesis using sarr by simp
  qed
  have "arr \<noteq> []" using larr assms(1) by auto
  then have "(arr ! 0, CULT_LEADER) \<in> set (roleRefs pc cc arr)"
    by (cases arr) (simp_all add: roleRefs_def)
  moreover have "distinct (map fst (roleRefs pc cc arr))"
    using m by (metis distinct_upt mset_eq_imp_distinct_iff)
  ultimately have "role (stamp (roleRefs pc cc arr) (players g) ! (arr ! 0)) = Some CULT_LEADER"
    using a0 by (intro stamp_role)
  then have lead: "role (players g' ! (arr ! 0)) = Some CULT_LEADER" by (simp add: g'_def)
  have "userId (players g' ! (arr ! 0)) = map userId (players g') ! (arr ! 0)"
    using a0 by (simp add: g'_def)
  also have "\<dots> = userId (players g ! (arr ! 0))" using a0 by (simp add: ids)
  finally have rec: "cultLeader g' = Some (userId (players g' ! (arr ! 0)))"
    by (simp add: g'_def c_def)
  have len': "arr ! 0 < length (players g')" using a0 by (simp add: g'_def)
  have total: "countRole SAILOR g' + countRole PIRATE g' + countRole CULT_LEADER g'
         + countRole CULTIST g' = ?n"
    using le by (simp add: cnt)
  have cP: "countRole PIRATE g' = (if ?n \<le> 7 then 2 else 3)"
    by (simp add: cnt pc_def)
  have cL: "countRole CULT_LEADER g' = 1" by (simp add: cnt)
  have cC: "countRole CULTIST g' = (if ?n \<le> 6 then 0 else if ?n \<le> 8 then 1 else 2)"
    by (simp add: cnt cc_def)
  have ex: "\<exists>i<length (players g'). role (players g' ! i) = Some CULT_LEADER
            \<and> cultLeader g' = Some (userId (players g' ! i))"
    using lead rec len' by blast
  show ?thesis
    using run ids assigned cP cL cC total ex by (intro exI [of _ g'] conjI)
qed

theorem C8_assignRoles_witness:
  "\<exists>g'. assignRoles (\<lambda>i. 0) (crewOf [''A'', ''B'', ''C'', ''D'', ''E'', ''F'', ''G'']) = Inr g'
     \<and> countRole PIRATE g' = 2 \<and> countRole CULT_LEADER g' = 1 \<and> countRole CULTIST g' = 1
     \<and> countRole SAILOR g' + countRole PIRATE g' + countRole CULT_LEADER g'
         + countRole CULTIST g' = 7"
proof -
  have l: "length (players (crewOf [''A'', ''B'', ''C'', ''D'', ''E'', ''F'', ''G''])) = 7"
    by (simp add: crewOf_def)
  show ?thesis
    using C8_assignRoles [of "crewOf [''A'', ''B'', ''C'', ''D'', ''E'', ''F'', ''G'']" "\<lambda>i. 0"]
    unfolding l by auto
qed

end
